theory Spec2Isabelle
  imports Complex_Main "HOL-Library.Word" "HOL-Library.Char_ord" "HOL-Library.List_Lexorder"
begin

unbundle bit_operations_syntax

section \<open>Go values\<close>

subsection \<open>IEEE 754 binary32 and binary64 bit patterns\<close>

text \<open>
  A Go \<open>float32\<close> is its 32-bit IEEE 754 pattern: sign (bit 31), biased exponent
  (bits 30..23) and fraction (bits 22..0). A \<open>float64\<close> is its 64-bit pattern. The
  comparisons and the negation of Go are functions of the pattern alone and are defined
  here; the rounding operations are primitives of the runtime (see \<open>runtime\<close> below).
\<close>

type_synonym float32 = "32 word"
type_synonym float64 = "64 word"

definition f32_sign :: "float32 \<Rightarrow> bool" where
  "f32_sign w = bit w 31"

definition f32_exponent :: "float32 \<Rightarrow> nat" where
  "f32_exponent w = unat (drop_bit 23 w AND 0xFF)"

definition f32_fraction :: "float32 \<Rightarrow> nat" where
  "f32_fraction w = unat (w AND 0x7FFFFF)"

definition f32_isNaN :: "float32 \<Rightarrow> bool" where
  "f32_isNaN w = (f32_exponent w = 255 \<and> f32_fraction w \<noteq> 0)"

definition f32_isZero :: "float32 \<Rightarrow> bool" where
  "f32_isZero w = (f32_exponent w = 0 \<and> f32_fraction w = 0)"

definition f32_isSubnormal :: "float32 \<Rightarrow> bool" where
  "f32_isSubnormal w = (f32_exponent w = 0 \<and> f32_fraction w \<noteq> 0)"

definition f32_isNormal :: "float32 \<Rightarrow> bool" where
  "f32_isNormal w = (0 < f32_exponent w \<and> f32_exponent w < 255)"

text \<open>The magnitude of a finite pattern, as a real number.\<close>

definition f32_magnitude :: "float32 \<Rightarrow> real" where
  "f32_magnitude w =
     (if f32_exponent w = 0 then real (f32_fraction w) / 2 ^ 149
      else if f32_exponent w < 150
        then real (2 ^ 23 + f32_fraction w) / 2 ^ (150 - f32_exponent w)
      else real (2 ^ 23 + f32_fraction w) * 2 ^ (f32_exponent w - 150))"

definition f32_valof :: "float32 \<Rightarrow> real" where
  "f32_valof w = (if f32_sign w then - f32_magnitude w else f32_magnitude w)"

text \<open>
  Go's \<open>==\<close> and \<open>!=\<close> on \<open>float32\<close>: a NaN equals nothing (itself included), the
  two zeros are equal, everything else is equal exactly when the patterns are.
\<close>

definition f32_eq :: "float32 \<Rightarrow> float32 \<Rightarrow> bool" where
  "f32_eq a b = (\<not> f32_isNaN a \<and> \<not> f32_isNaN b \<and> (a = b \<or> (f32_isZero a \<and> f32_isZero b)))"

definition f32_ne :: "float32 \<Rightarrow> float32 \<Rightarrow> bool" where
  "f32_ne a b = (\<not> f32_eq a b)"

text \<open>
  Go's ordering on \<open>float32\<close>: false as soon as one side is a NaN; otherwise the order
  of the sign-magnitude patterns, both zeros at 0.
\<close>

definition f32_key :: "float32 \<Rightarrow> int" where
  "f32_key w = (if f32_sign w then - uint (w AND 0x7FFFFFFF) else uint (w AND 0x7FFFFFFF))"

definition f32_lt :: "float32 \<Rightarrow> float32 \<Rightarrow> bool" where
  "f32_lt a b = (\<not> f32_isNaN a \<and> \<not> f32_isNaN b \<and> f32_key a < f32_key b)"

definition f32_le :: "float32 \<Rightarrow> float32 \<Rightarrow> bool" where
  "f32_le a b = (\<not> f32_isNaN a \<and> \<not> f32_isNaN b \<and> f32_key a \<le> f32_key b)"

definition f32_gt :: "float32 \<Rightarrow> float32 \<Rightarrow> bool" where
  "f32_gt a b = f32_lt b a"

definition f32_ge :: "float32 \<Rightarrow> float32 \<Rightarrow> bool" where
  "f32_ge a b = f32_le b a"

text \<open>Go's unary minus on \<open>float32\<close> flips the sign bit.\<close>

definition f32_neg :: "float32 \<Rightarrow> float32" where
  "f32_neg w = w XOR 0x80000000"

text \<open>
  \<open>math.SmallestNonzeroFloat32\<close> is the constant \<open>0x1p-126 * 0x1p-23\<close> of package
  \<open>math\<close>; \<open>float32(math.SmallestNonzeroFloat32)\<close> is the pattern \<open>0x00000001\<close>
  (lemma \<open>SmallestNonzeroFloat32_valof\<close> below).
\<close>

definition math_SmallestNonzeroFloat32 :: real where
  "math_SmallestNonzeroFloat32 = (1 / 2 ^ 126) * (1 / 2 ^ 23)"

definition SmallestNonzeroFloat32 :: float32 where
  "SmallestNonzeroFloat32 = 0x00000001"

subsection \<open>Dynamic values\<close>

text \<open>
  A compiled \<open>*regexp.Regexp\<close> is identified by its source expression; the pointer may
  be nil.
\<close>

datatype regexp = Regexp string

text \<open>
  The dynamic values of \<open>interface{}\<close> that the kernels and the canonicalization
  distinguish, one constructor per Go dynamic type: the nil interface, \<open>float32\<close>,
  \<open>[]float32\<close>, \<open>bool\<close>, \<open>[]bool\<close>, \<open>string\<close>, \<open>*regexp.Regexp\<close>,
  \<open>[]interface{}\<close>, the integer types and \<open>float64\<close> with their slices (\<open>int\<close> at
  64 bits), and any other type behind an opaque handle.
\<close>

datatype iface =
    NilValue
  | Float32 float32
  | Float32s "float32 list"
  | Boolean bool
  | Booleans "bool list"
  | Str string
  | RegexpPtr "regexp option"
  | Ifaces "iface list"
  | Uint8 "8 word"
  | Uint16 "16 word"
  | Uint32 "32 word"
  | Uint64 "64 word"
  | Int8 "8 word"
  | Int16 "16 word"
  | Int32 "32 word"
  | Int64 "64 word"
  | GoInt "64 word"
  | Float64 float64
  | Uint8s "8 word list"
  | Uint16s "16 word list"
  | Uint32s "32 word list"
  | Uint64s "64 word list"
  | Int8s "8 word list"
  | Int16s "16 word list"
  | Int32s "32 word list"
  | Int64s "64 word list"
  | GoInts "64 word list"
  | Float64s "float64 list"
  | Other nat

subsection \<open>Errors\<close>

text \<open>
  One constructor per error the kernels build, carrying the arguments of its format:
  \<open>"different array sizes: %v, %v"\<close>, \<open>"invalid operand for ..."\<close>,
  \<open>"invalid nodata value: %v"\<close>, \<open>"Unable to compile regexp pattern '%v': %v"\<close>;
  an error returned by \<open>Parameters.Get\<close>; and a runtime panic.
\<close>

datatype error =
    DifferentArraySizes nat nat
  | InvalidOperand string
  | InvalidNoData iface
  | RegexpCompileError string string
  | ParameterError string
  | Panic string

text \<open>The interface \<open>Parameters\<close>: \<open>Get(name) (interface{}, error)\<close>.\<close>

type_synonym Parameters = "string \<Rightarrow> error + iface"

type_synonym evaluationOperator = "iface \<Rightarrow> iface \<Rightarrow> Parameters \<Rightarrow> error + iface"
type_synonym stageTypeCheck = "iface \<Rightarrow> bool"
type_synonym stageCombinedTypeCheck = "iface \<Rightarrow> iface \<Rightarrow> bool"

text \<open>The formats of the type errors of a stage.\<close>

definition logicalErrorFormat :: string where
  "logicalErrorFormat = ''Value '' @ [CHR 0x27] @ ''%v'' @ [CHR 0x27]
     @ '' cannot be used with the logical operator '' @ [CHR 0x27] @ ''%v'' @ [CHR 0x27]
     @ '', it is not a bool''"

definition modifierErrorFormat :: string where
  "modifierErrorFormat = ''Value '' @ [CHR 0x27] @ ''%v'' @ [CHR 0x27]
     @ '' cannot be used with the modifier '' @ [CHR 0x27] @ ''%v'' @ [CHR 0x27]
     @ '', it is not a number''"

subsection \<open>Primitives of the runtime and of the standard library\<close>

text \<open>
  The rounding arithmetic of the hardware, the numeric conversions, \<open>math.Pow\<close>,
  \<open>math.Mod\<close>, the \<open>%v\<close> rendering of package \<open>fmt\<close> and package \<open>regexp\<close> are
  not code of this repository. The kernels take them as a parameter, and every theorem
  about a kernel holds for all of them.
  \<^item> \<open>f32_of_int\<close> is the conversion of an integer to the nearest \<open>float32\<close>;
  \<^item> \<open>int64_of_f32\<close> and \<open>uint64_of_f32\<close> are the conversions \<open>int64(x)\<close> and
    \<open>uint64(x)\<close> of a \<open>float32\<close>;
  \<^item> \<open>fmt_v\<close> renders a value that is neither a string, a bool nor nil under \<open>%v\<close>;
  \<^item> \<open>regexp_Compile\<close> returns the compiled expression or the text of its error.
\<close>

record runtime =
  f32_add :: "float32 \<Rightarrow> float32 \<Rightarrow> float32"
  f32_sub :: "float32 \<Rightarrow> float32 \<Rightarrow> float32"
  f32_mul :: "float32 \<Rightarrow> float32 \<Rightarrow> float32"
  f32_div :: "float32 \<Rightarrow> float32 \<Rightarrow> float32"
  f64_of_f32 :: "float32 \<Rightarrow> float64"
  f32_of_f64 :: "float64 \<Rightarrow> float32"
  math_Pow :: "float64 \<Rightarrow> float64 \<Rightarrow> float64"
  math_Mod :: "float64 \<Rightarrow> float64 \<Rightarrow> float64"
  int64_of_f32 :: "float32 \<Rightarrow> 64 word"
  uint64_of_f32 :: "float32 \<Rightarrow> 64 word"
  f32_of_int :: "int \<Rightarrow> float32"
  fmt_v :: "iface \<Rightarrow> string"
  regexp_Compile :: "string \<Rightarrow> string + regexp"
  regexp_Match :: "regexp \<Rightarrow> string \<Rightarrow> bool"

subsection \<open>Type assertions and type predicates\<close>

text \<open>
  The comma-ok assertion \<open>x, ok := v.(T)\<close>: the value and \<open>True\<close>, or the zero value
  of \<open>T\<close> and \<open>False\<close>.
\<close>

fun assertFloat32s :: "iface \<Rightarrow> float32 list \<times> bool" where
  "assertFloat32s (Float32s xs) = (xs, True)"
| "assertFloat32s _ = ([], False)"

fun assertFloat32 :: "iface \<Rightarrow> float32 \<times> bool" where
  "assertFloat32 (Float32 x) = (x, True)"
| "assertFloat32 _ = (0, False)"

fun assertBooleans :: "iface \<Rightarrow> bool list \<times> bool" where
  "assertBooleans (Booleans bs) = (bs, True)"
| "assertBooleans _ = ([], False)"

fun assertBoolean :: "iface \<Rightarrow> bool \<times> bool" where
  "assertBoolean (Boolean b) = (b, True)"
| "assertBoolean _ = (False, False)"

fun assertString :: "iface \<Rightarrow> string \<times> bool" where
  "assertString (Str s) = (s, True)"
| "assertString _ = ([], False)"

fun assertIfaces :: "iface \<Rightarrow> iface list \<times> bool" where
  "assertIfaces (Ifaces vs) = (vs, True)"
| "assertIfaces _ = ([], False)"

fun isString :: "iface \<Rightarrow> bool" where
  "isString (Str s) = True"
| "isString _ = False"

fun isRegexOrString :: "iface \<Rightarrow> bool" where
  "isRegexOrString (Str s) = True"
| "isRegexOrString (RegexpPtr p) = True"
| "isRegexOrString _ = False"

fun isBool :: "iface \<Rightarrow> bool" where
  "isBool (Booleans bs) = True"
| "isBool (Boolean b) = True"
| "isBool _ = False"

fun isFloat32 :: "iface \<Rightarrow> bool" where
  "isFloat32 (Float32s xs) = True"
| "isFloat32 (Float32 x) = True"
| "isFloat32 _ = False"

fun isArray :: "iface \<Rightarrow> bool" where
  "isArray (Ifaces vs) = True"
| "isArray _ = False"

definition additionTypeCheck :: "iface \<Rightarrow> iface \<Rightarrow> bool" where
  "additionTypeCheck left right =
     (if isFloat32 left \<and> isFloat32 right then True
      else if \<not> isString left \<and> \<not> isString right then False
      else True)"

definition comparatorTypeCheck :: "iface \<Rightarrow> iface \<Rightarrow> bool" where
  "comparatorTypeCheck left right =
     (if isFloat32 left \<and> isFloat32 right then True
      else if isString left \<and> isString right then True
      else False)"

subsection \<open>The NoData sentinel\<close>

definition getNoData :: "Parameters \<Rightarrow> error + float32" where
  "getNoData parameters =
     (let noData = SmallestNonzeroFloat32 in
      case parameters ''nodata'' of
        Inl err \<Rightarrow> Inr noData
      | Inr val \<Rightarrow>
          (case assertFloat32 val of
             (v, ok) \<Rightarrow> if \<not> ok then Inl (InvalidNoData val) else Inr v))"


section \<open>Operator kernels\<close>

subsection \<open>The broadcasting block\<close>

text \<open>
  Every binary kernel on numbers repeats the same block, with its own element operation
  \<open>f\<close> and its own operator name in the last error:
  \<^verbatim>\<open>
  lax, laok := left.([]float32);  lx, lok := left.(float32)
  rax, raok := right.([]float32); rx, rok := right.(float32)
  if laok && raok {
      if len(lax) != len(rax) { return nil, fmt.Errorf("different array sizes: %v, %v", len(lax), len(rax)) }
      res := make([]T, len(lax)); for i := range lax { res[i] = f(lax[i], rax[i]) }; return res, nil
  }
  if laok && rok { res := make([]T, len(lax)); for i := range lax { res[i] = f(lax[i], rx) }; return res, nil }
  if lok && raok { res := make([]T, len(rax)); for i := range rax { res[i] = f(lx, rax[i]) }; return res, nil }
  if lok && rok { return f(lx, rx), nil }
  return nil, fmt.Errorf("invalid operand for ...")
  \<close>
  \<open>float32Block\<close> is that block; \<open>boxSlice\<close> and \<open>boxScalar\<close> box the result
  (\<open>[]float32\<close> and \<open>float32\<close> for the arithmetic and bitwise kernels, \<open>[]bool\<close> and
  \<open>bool\<close> for the comparators). \<open>boolBlock\<close> is the same block of \<open>andStage\<close> and
  \<open>orStage\<close>, which assert \<open>[]bool\<close> and \<open>bool\<close>.
\<close>

definition float32Block ::
  "(float32 \<Rightarrow> float32 \<Rightarrow> 'a) \<Rightarrow> ('a list \<Rightarrow> iface) \<Rightarrow> ('a \<Rightarrow> iface) \<Rightarrow> string
     \<Rightarrow> iface \<Rightarrow> iface \<Rightarrow> error + iface" where
  "float32Block f boxSlice boxScalar name left right =
     (case assertFloat32s left of (lax, laok) \<Rightarrow>
      case assertFloat32 left of (lx, lok) \<Rightarrow>
      case assertFloat32s right of (rax, raok) \<Rightarrow>
      case assertFloat32 right of (rx, rok) \<Rightarrow>
        if laok \<and> raok then
          (if length lax \<noteq> length rax
           then Inl (DifferentArraySizes (length lax) (length rax))
           else Inr (boxSlice (map (\<lambda>i. f (lax ! i) (rax ! i)) [0..<length lax])))
        else if laok \<and> rok then Inr (boxSlice (map (\<lambda>i. f (lax ! i) rx) [0..<length lax]))
        else if lok \<and> raok then Inr (boxSlice (map (\<lambda>i. f lx (rax ! i)) [0..<length rax]))
        else if lok \<and> rok then Inr (boxScalar (f lx rx))
        else Inl (InvalidOperand name))"

definition boolBlock ::
  "(bool \<Rightarrow> bool \<Rightarrow> bool) \<Rightarrow> string \<Rightarrow> iface \<Rightarrow> iface \<Rightarrow> error + iface" where
  "boolBlock f name left right =
     (case assertBooleans left of (lax, laok) \<Rightarrow>
      case assertBoolean left of (lx, lok) \<Rightarrow>
      case assertBooleans right of (rax, raok) \<Rightarrow>
      case assertBoolean right of (rx, rok) \<Rightarrow>
        if laok \<and> raok then
          (if length lax \<noteq> length rax
           then Inl (DifferentArraySizes (length lax) (length rax))
           else Inr (Booleans (map (\<lambda>i. f (lax ! i) (rax ! i)) [0..<length lax])))
        else if laok \<and> rok then Inr (Booleans (map (\<lambda>i. f (lax ! i) rx) [0..<length lax]))
        else if lok \<and> raok then Inr (Booleans (map (\<lambda>i. f lx (rax ! i)) [0..<length rax]))
        else if lok \<and> rok then Inr (Boolean (f lx rx))
        else Inl (InvalidOperand name))"

subsection \<open>Rendering under \<open>%v\<close>\<close>

text \<open>
  \<open>fmt.Sprintf("%v", v)\<close>: a string renders as itself, a bool as \<open>true\<close> or
  \<open>false\<close>, the nil interface as \<open><nil>\<close>; the other renderings are the runtime's.
\<close>

fun Sprint_v :: "runtime \<Rightarrow> iface \<Rightarrow> string" where
  "Sprint_v rt (Str s) = s"
| "Sprint_v rt (Boolean b) = (if b then ''true'' else ''false'')"
| "Sprint_v rt NilValue = ''<nil>''"
| "Sprint_v rt v = fmt_v rt v"

subsection \<open>Arithmetic\<close>

definition noopStageRight :: evaluationOperator where
  "noopStageRight left right parameters = Inr right"

text \<open>\<open>fmt.Sprintf("%v%v", left, right)\<close> is the two renderings, one after the other.\<close>

definition addStage :: "runtime \<Rightarrow> evaluationOperator" where
  "addStage rt left right parameters =
     (if isString left \<or> isString right
      then Inr (Str (Sprint_v rt left @ Sprint_v rt right))
      else float32Block (f32_add rt) Float32s Float32 ''addition'' left right)"

definition subtractStage :: "runtime \<Rightarrow> evaluationOperator" where
  "subtractStage rt left right parameters =
     float32Block (f32_sub rt) Float32s Float32 ''subtraction'' left right"

definition multiplyStage :: "runtime \<Rightarrow> evaluationOperator" where
  "multiplyStage rt left right parameters =
     float32Block (f32_mul rt) Float32s Float32 ''multiplication'' left right"

definition divideStage :: "runtime \<Rightarrow> evaluationOperator" where
  "divideStage rt left right parameters =
     float32Block (f32_div rt) Float32s Float32 ''division'' left right"

definition exponentStage :: "runtime \<Rightarrow> evaluationOperator" where
  "exponentStage rt left right parameters =
     float32Block (\<lambda>a b. f32_of_f64 rt (math_Pow rt (f64_of_f32 rt a) (f64_of_f32 rt b)))
       Float32s Float32 ''exponential'' left right"

definition modulusStage :: "runtime \<Rightarrow> evaluationOperator" where
  "modulusStage rt left right parameters =
     float32Block (\<lambda>a b. f32_of_f64 rt (math_Mod rt (f64_of_f32 rt a) (f64_of_f32 rt b)))
       Float32s Float32 ''modulus'' left right"

subsection \<open>Comparators and equality\<close>

text \<open>
  The four comparators first compare two strings (Go orders strings bytewise); the two
  equality kernels have no such branch.
\<close>

definition gteStage :: evaluationOperator where
  "gteStage left right parameters =
     (if isString left \<and> isString right
      then Inr (Boolean (fst (assertString left) \<ge> fst (assertString right)))
      else float32Block f32_ge Booleans Boolean ''>='' left right)"

definition gtStage :: evaluationOperator where
  "gtStage left right parameters =
     (if isString left \<and> isString right
      then Inr (Boolean (fst (assertString left) > fst (assertString right)))
      else float32Block f32_gt Booleans Boolean ''>'' left right)"

definition lteStage :: evaluationOperator where
  "lteStage left right parameters =
     (if isString left \<and> isString right
      then Inr (Boolean (fst (assertString left) \<le> fst (assertString right)))
      else float32Block f32_le Booleans Boolean ''<='' left right)"

definition ltStage :: evaluationOperator where
  "ltStage left right parameters =
     (if isString left \<and> isString right
      then Inr (Boolean (fst (assertString left) < fst (assertString right)))
      else float32Block f32_lt Booleans Boolean ''<'' left right)"

definition equalStage :: evaluationOperator where
  "equalStage left right parameters =
     float32Block f32_eq Booleans Boolean ''=='' left right"

definition notEqualStage :: evaluationOperator where
  "notEqualStage left right parameters =
     float32Block f32_ne Booleans Boolean ''!='' left right"

subsection \<open>Logical kernels\<close>

definition andStage :: evaluationOperator where
  "andStage left right parameters = boolBlock (\<lambda>a b. a \<and> b) ''&&'' left right"

definition orStage :: evaluationOperator where
  "orStage left right parameters = boolBlock (\<lambda>a b. a \<or> b) ''||'' left right"

subsection \<open>Prefix kernels\<close>

definition negateStage :: evaluationOperator where
  "negateStage left right parameters =
     (case assertFloat32s right of (rax, raok) \<Rightarrow>
      case assertFloat32 right of (rx, rok) \<Rightarrow>
        if raok then Inr (Float32s (map (\<lambda>i. f32_neg (rax ! i)) [0..<length rax]))
        else if rok then Inr (Float32 (f32_neg rx))
        else Inl (InvalidOperand ''-''))"

definition invertStage :: evaluationOperator where
  "invertStage left right parameters =
     (case assertBooleans right of (rax, raok) \<Rightarrow>
      case assertBoolean right of (rx, rok) \<Rightarrow>
        if raok then Inr (Booleans (map (\<lambda>i. \<not> rax ! i) [0..<length rax]))
        else if rok then Inr (Boolean (\<not> rx))
        else Inl (InvalidOperand ''!''))"

definition bitwiseNotStage :: "runtime \<Rightarrow> evaluationOperator" where
  "bitwiseNotStage rt left right parameters =
     (case assertFloat32s right of (rax, raok) \<Rightarrow>
      case assertFloat32 right of (rx, rok) \<Rightarrow>
        if raok
        then Inr (Float32s (map (\<lambda>i. f32_of_int rt (sint (NOT (int64_of_f32 rt (rax ! i)))))
                              [0..<length rax]))
        else if rok then Inr (Float32 (f32_of_int rt (sint (NOT (int64_of_f32 rt rx)))))
        else Inl (InvalidOperand ''^''))"

subsection \<open>Bitwise kernels\<close>

text \<open>
  \<open>|\<close>, \<open>&\<close> and \<open>^\<close> work on \<open>int64\<close>, the shifts on \<open>uint64\<close>; a Go shift by 64 or
  more gives 0, as \<open>push_bit\<close> and \<open>drop_bit\<close> on a 64-bit word do.
\<close>

definition bitwiseOrStage :: "runtime \<Rightarrow> evaluationOperator" where
  "bitwiseOrStage rt left right parameters =
     float32Block (\<lambda>a b. f32_of_int rt (sint (int64_of_f32 rt a OR int64_of_f32 rt b)))
       Float32s Float32 ''|'' left right"

definition bitwiseAndStage :: "runtime \<Rightarrow> evaluationOperator" where
  "bitwiseAndStage rt left right parameters =
     float32Block (\<lambda>a b. f32_of_int rt (sint (int64_of_f32 rt a AND int64_of_f32 rt b)))
       Float32s Float32 ''&'' left right"

definition bitwiseXORStage :: "runtime \<Rightarrow> evaluationOperator" where
  "bitwiseXORStage rt left right parameters =
     float32Block (\<lambda>a b. f32_of_int rt (sint (int64_of_f32 rt a XOR int64_of_f32 rt b)))
       Float32s Float32 ''^'' left right"

definition leftShiftStage :: "runtime \<Rightarrow> evaluationOperator" where
  "leftShiftStage rt left right parameters =
     float32Block
       (\<lambda>a b. f32_of_int rt (uint (push_bit (unat (uint64_of_f32 rt b)) (uint64_of_f32 rt a))))
       Float32s Float32 ''<<'' left right"

definition rightShiftStage :: "runtime \<Rightarrow> evaluationOperator" where
  "rightShiftStage rt left right parameters =
     float32Block
       (\<lambda>a b. f32_of_int rt (uint (drop_bit (unat (uint64_of_f32 rt b)) (uint64_of_f32 rt a))))
       Float32s Float32 ''>>'' left right"


subsection \<open>Ternary kernels\<close>

definition ternaryIfStage :: evaluationOperator where
  "ternaryIfStage left right parameters =
     (case getNoData parameters of
        Inl err \<Rightarrow> Inl err
      | Inr noData \<Rightarrow>
         (case assertBooleans left of (lax, laok) \<Rightarrow>
          case assertBoolean left of (lx, lok) \<Rightarrow>
          case assertFloat32s right of (rax, raok) \<Rightarrow>
          case assertFloat32 right of (rx, rok) \<Rightarrow>
            if laok \<and> raok then
              (if length lax \<noteq> length rax
               then Inl (DifferentArraySizes (length lax) (length rax))
               else Inr (Float32s (map (\<lambda>i. if lax ! i then rax ! i else noData)
                                      [0..<length lax])))
            else if laok \<and> rok
              then Inr (Float32s (map (\<lambda>i. if lax ! i then rx else noData) [0..<length lax]))
            else if lok \<and> raok
              then Inr (Float32s (map (\<lambda>i. if lx then rax ! i else noData) [0..<length rax]))
            else if lok \<and> rok then (if lx then Inr (Float32 rx) else Inr (Float32 noData))
            else Inl (InvalidOperand ''ternary if'')))"

text \<open>
  In the two scalar-left branches the guard is \<open>(lok || lx == noData)\<close>: when \<open>left\<close> is
  not a \<open>float32\<close>, \<open>lx\<close> is the zero value \<open>0\<close>.
\<close>

definition ternaryElseStage :: evaluationOperator where
  "ternaryElseStage left right parameters =
     (case getNoData parameters of
        Inl err \<Rightarrow> Inl err
      | Inr noData \<Rightarrow>
         (case assertFloat32s left of (lax, laok) \<Rightarrow>
          case assertFloat32 left of (lx, lok) \<Rightarrow>
          case assertFloat32s right of (rax, raok) \<Rightarrow>
          case assertFloat32 right of (rx, rok) \<Rightarrow>
            if laok \<and> raok then
              (if length lax \<noteq> length rax
               then Inl (DifferentArraySizes (length lax) (length rax))
               else Inr (Float32s (map (\<lambda>i. if f32_eq (lax ! i) noData then rax ! i else lax ! i)
                                      [0..<length lax])))
            else if laok \<and> rok
              then Inr (Float32s (map (\<lambda>i. if f32_eq (lax ! i) noData then rx else lax ! i)
                                     [0..<length lax]))
            else if (lok \<or> f32_eq lx noData) \<and> raok
              then Inr (Float32s (map (\<lambda>i. if f32_eq lx noData then rax ! i else lx)
                                     [0..<length rax]))
            else if (lok \<or> f32_eq lx noData) \<and> rok
              then (if f32_eq lx noData then Inr (Float32 rx) else Inr (Float32 lx))
            else Inl (InvalidOperand ''ternary else'')))"

subsection \<open>Regular expressions\<close>

text \<open>
  \<open>regexStage\<close> sets \<open>pattern\<close> in a type switch with no default, so \<open>pattern\<close> stays
  nil when \<open>right\<close> is neither a string nor a \<open>*regexp.Regexp\<close>. In
  \<open>pattern.Match([]byte(left.(string)))\<close> the assertion on \<open>left\<close> is evaluated before
  the call and panics when \<open>left\<close> is not a string; \<open>Match\<close> on a nil pattern panics.
\<close>

definition regexPattern :: "runtime \<Rightarrow> iface \<Rightarrow> error + regexp option" where
  "regexPattern rt right =
     (case right of
        Str p \<Rightarrow>
          (case regexp_Compile rt p of
             Inl err \<Rightarrow> Inl (RegexpCompileError p err)
           | Inr re \<Rightarrow> Inr (Some re))
      | RegexpPtr re \<Rightarrow> Inr re
      | _ \<Rightarrow> Inr None)"

definition regexStage :: "runtime \<Rightarrow> evaluationOperator" where
  "regexStage rt left right parameters =
     (case regexPattern rt right of
        Inl err \<Rightarrow> Inl err
      | Inr pattern \<Rightarrow>
          (case assertString left of
             (s, ok) \<Rightarrow>
               if \<not> ok then Inl (Panic ''interface conversion: interface {} is not string'')
               else (case pattern of
                       None \<Rightarrow> Inl (Panic ''nil pointer dereference'')
                     | Some re \<Rightarrow> Inr (Boolean (regexp_Match rt re s)))))"

definition notRegexStage :: "runtime \<Rightarrow> evaluationOperator" where
  "notRegexStage rt left right parameters =
     (case regexStage rt left right parameters of
        Inl err \<Rightarrow> Inl err
      | Inr ret \<Rightarrow>
          (case assertBoolean ret of
             (b, ok) \<Rightarrow>
               if \<not> ok then Inl (Panic ''interface conversion: interface {} is not bool'')
               else Inr (Boolean (\<not> b))))"

subsection \<open>Leaves and the separator\<close>

definition makeParameterStage :: "string \<Rightarrow> evaluationOperator" where
  "makeParameterStage parameterName left right parameters =
     (case parameters parameterName of Inl err \<Rightarrow> Inl err | Inr v \<Rightarrow> Inr v)"

definition makeLiteralStage :: "iface \<Rightarrow> evaluationOperator" where
  "makeLiteralStage literal left right parameters = Inr literal"

definition separatorStage :: evaluationOperator where
  "separatorStage left right parameters =
     (case assertIfaces left of
        (vs, ok) \<Rightarrow> if ok then Inr (Ifaces (vs @ [right])) else Inr (Ifaces [left, right]))"

section \<open>Canonicalization of parameters\<close>

text \<open>
  \<open>castToFloat32\<close> switches on the dynamic type: the unsigned and signed integers of 8
  to 64 bits, \<open>int\<close> and \<open>float64\<close>, and the slices of these; every other value is
  returned as it is. An unsigned integer is read with \<open>uint\<close>, a signed one with
  \<open>sint\<close>.
\<close>

fun castToFloat32 :: "runtime \<Rightarrow> iface \<Rightarrow> iface" where
  "castToFloat32 rt (Uint8 x) = Float32 (f32_of_int rt (uint x))"
| "castToFloat32 rt (Uint16 x) = Float32 (f32_of_int rt (uint x))"
| "castToFloat32 rt (Uint32 x) = Float32 (f32_of_int rt (uint x))"
| "castToFloat32 rt (Uint64 x) = Float32 (f32_of_int rt (uint x))"
| "castToFloat32 rt (Int8 x) = Float32 (f32_of_int rt (sint x))"
| "castToFloat32 rt (Int16 x) = Float32 (f32_of_int rt (sint x))"
| "castToFloat32 rt (Int32 x) = Float32 (f32_of_int rt (sint x))"
| "castToFloat32 rt (Int64 x) = Float32 (f32_of_int rt (sint x))"
| "castToFloat32 rt (GoInt x) = Float32 (f32_of_int rt (sint x))"
| "castToFloat32 rt (Float64 x) = Float32 (f32_of_f64 rt x)"
| "castToFloat32 rt (Uint8s t) = Float32s (map (\<lambda>v. f32_of_int rt (uint v)) t)"
| "castToFloat32 rt (Uint16s t) = Float32s (map (\<lambda>v. f32_of_int rt (uint v)) t)"
| "castToFloat32 rt (Uint32s t) = Float32s (map (\<lambda>v. f32_of_int rt (uint v)) t)"
| "castToFloat32 rt (Uint64s t) = Float32s (map (\<lambda>v. f32_of_int rt (uint v)) t)"
| "castToFloat32 rt (Int8s t) = Float32s (map (\<lambda>v. f32_of_int rt (sint v)) t)"
| "castToFloat32 rt (Int16s t) = Float32s (map (\<lambda>v. f32_of_int rt (sint v)) t)"
| "castToFloat32 rt (Int32s t) = Float32s (map (\<lambda>v. f32_of_int rt (sint v)) t)"
| "castToFloat32 rt (Int64s t) = Float32s (map (\<lambda>v. f32_of_int rt (sint v)) t)"
| "castToFloat32 rt (GoInts t) = Float32s (map (\<lambda>v. f32_of_int rt (sint v)) t)"
| "castToFloat32 rt (Float64s t) = Float32s (map (f32_of_f64 rt) t)"
| "castToFloat32 rt v = v"

text \<open>\<open>sanitizedParameters.Get\<close>, over the wrapped \<open>orig\<close>.\<close>

definition sanitizedParameters_Get :: "runtime \<Rightarrow> Parameters \<Rightarrow> Parameters" where
  "sanitizedParameters_Get rt orig key =
     (case orig key of Inl err \<Rightarrow> Inl err | Inr v \<Rightarrow> Inr (castToFloat32 rt v))"


section \<open>The stage tree\<close>

text \<open>
  Modelled from the spec: the enumeration \<open>OperatorSymbol\<close> is declared outside the
  files at hand; its members are the operator symbol set of the specification
  (\<open>AND\<close>, \<open>OR\<close>, \<open>IN\<close> and \<open>FUNCTION\<close> carry the suffix \<open>_SYM\<close>).
\<close>

datatype OperatorSymbol =
    EQ | NEQ | GT | LT | GTE | LTE | REQ | NREQ | AND_SYM | OR_SYM | IN_SYM | COALESCE
  | PLUS | MINUS | MULTIPLY | DIVIDE | MODULUS | EXPONENT
  | BITWISE_AND | BITWISE_OR | BITWISE_XOR | BITWISE_LSHIFT | BITWISE_RSHIFT
  | NEGATE | INVERT | BITWISE_NOT | TERNARY_TRUE | TERNARY_FALSE | SEPARATE
  | FUNCTION_SYM | ACCESSOR | LITERAL | PARAMETER | NOOP_RIGHT

text \<open>
  A stage holds pointers to its children, so stages live in a store: an address maps to
  the stage allocated there, a pointer is an address or nil (\<open>None\<close>). A field of
  function type is a function or nil.
\<close>

type_synonym addr = nat

record evaluationStage =
  symbol :: OperatorSymbol
  leftStage :: "addr option"
  rightStage :: "addr option"
  operator :: "evaluationOperator option"
  leftTypeCheck :: "stageTypeCheck option"
  rightTypeCheck :: "stageTypeCheck option"
  typeCheck :: "stageCombinedTypeCheck option"
  typeErrorFormat :: string

type_synonym store = "addr \<Rightarrow> evaluationStage option"

text \<open>Reading through a pointer panics when the pointer is nil.\<close>

definition deref :: "store \<Rightarrow> addr option \<Rightarrow> error + evaluationStage" where
  "deref h p =
     (case p of
        None \<Rightarrow> Inl (Panic ''nil pointer dereference'')
      | Some a \<Rightarrow>
          (case h a of
             None \<Rightarrow> Inl (Panic ''nil pointer dereference'')
           | Some s \<Rightarrow> Inr s))"

text \<open>
  \<open>setToNonStage\<close> has a pointer receiver and takes \<open>other\<close> by value: it assigns six
  fields of the stage \<open>this\<close> points to.
\<close>

definition setToNonStage :: "store \<Rightarrow> addr option \<Rightarrow> evaluationStage \<Rightarrow> error + store" where
  "setToNonStage h this other =
     (case deref h this of
        Inl err \<Rightarrow> Inl err
      | Inr s \<Rightarrow>
          Inr (h(the this \<mapsto>
                 s\<lparr>symbol := symbol other,
                   operator := operator other,
                   leftTypeCheck := leftTypeCheck other,
                   rightTypeCheck := rightTypeCheck other,
                   typeCheck := typeCheck other,
                   typeErrorFormat := typeErrorFormat other\<rparr>)))"

text \<open>
  \<open>swapWith\<close>: \<open>temp := *other\<close>, then \<open>other.setToNonStage(*this)\<close>, then
  \<open>this.setToNonStage(temp)\<close>.
\<close>

definition swapWith :: "store \<Rightarrow> addr option \<Rightarrow> addr option \<Rightarrow> error + store" where
  "swapWith h this other =
     (case deref h other of
        Inl err \<Rightarrow> Inl err
      | Inr temp \<Rightarrow>
          (case deref h this of
             Inl err \<Rightarrow> Inl err
           | Inr cur \<Rightarrow>
               (case setToNonStage h other cur of
                  Inl err \<Rightarrow> Inl err
                | Inr h1 \<Rightarrow> setToNonStage h1 this temp)))"

definition isShortCircuitable :: "evaluationStage \<Rightarrow> bool" where
  "isShortCircuitable this =
     (symbol this = AND_SYM \<or> symbol this = OR_SYM \<or> symbol this = TERNARY_TRUE
      \<or> symbol this = TERNARY_FALSE \<or> symbol this = COALESCE)"

section \<open>The kernels by family\<close>

text \<open>
  The seventeen kernels built on the broadcasting block over numbers, and the two over
  bools.
\<close>

definition numericKernels :: "runtime \<Rightarrow> evaluationOperator list" where
  "numericKernels rt =
     [addStage rt, subtractStage rt, multiplyStage rt, divideStage rt, exponentStage rt,
      modulusStage rt, gteStage, gtStage, lteStage, ltStage, equalStage, notEqualStage,
      bitwiseOrStage rt, bitwiseAndStage rt, bitwiseXORStage rt, leftShiftStage rt,
      rightShiftStage rt]"

definition logicalKernels :: "evaluationOperator list" where
  "logicalKernels = [andStage, orStage]"

text \<open>
  Lane \<open>i\<close> of a result: the \<open>i\<close>-th element of a vector, boxed; a scalar is its own
  lane. The length of a vector result.
\<close>

fun lane :: "iface \<Rightarrow> nat \<Rightarrow> iface" where
  "lane (Float32s xs) i = Float32 (xs ! i)"
| "lane (Booleans bs) i = Boolean (bs ! i)"
| "lane v i = v"

fun vectorLength :: "iface \<Rightarrow> nat option" where
  "vectorLength (Float32s xs) = Some (length xs)"
| "vectorLength (Booleans bs) = Some (length bs)"
| "vectorLength v = None"

section \<open>Lane-wise selection\<close>

text \<open>
  The vocabulary of the ternary identity: a value is a vector or a scalar; lane \<open>i\<close> of
  a condition and of a number (a scalar is broadcast: it is its own lane everywhere); a
  value fits the length \<open>n\<close> when it is a scalar or a vector of length \<open>n\<close>. The
  selection \<open>cond ? a : b\<close> has \<open>n\<close> lanes when one of the three is a vector and is a
  scalar otherwise.
\<close>

definition isVector :: "iface \<Rightarrow> bool" where
  "isVector v = (vectorLength v \<noteq> None)"

fun boolLane :: "iface \<Rightarrow> nat \<Rightarrow> bool" where
  "boolLane (Booleans bs) i = bs ! i"
| "boolLane (Boolean b) i = b"
| "boolLane v i = False"

fun float32Lane :: "iface \<Rightarrow> nat \<Rightarrow> float32" where
  "float32Lane (Float32s xs) i = xs ! i"
| "float32Lane (Float32 x) i = x"
| "float32Lane v i = 0"

definition hasShape :: "nat \<Rightarrow> iface \<Rightarrow> bool" where
  "hasShape n v = (vectorLength v = None \<or> vectorLength v = Some n)"

definition ternaryLanes :: "nat \<Rightarrow> iface \<Rightarrow> iface \<Rightarrow> iface \<Rightarrow> nat" where
  "ternaryLanes n c a b = (if isVector c \<or> isVector a \<or> isVector b then n else 1)"

definition ternarySelect :: "nat \<Rightarrow> iface \<Rightarrow> iface \<Rightarrow> iface \<Rightarrow> iface" where
  "ternarySelect n c a b =
     (if isVector c \<or> isVector a \<or> isVector b
      then Float32s (map (\<lambda>i. if boolLane c i then float32Lane a i else float32Lane b i) [0..<n])
      else Float32 (if boolLane c 0 then float32Lane a 0 else float32Lane b 0))"

section \<open>Concrete inputs\<close>

text \<open>A parameter source that resolves no name.\<close>

definition noParameters :: Parameters where
  "noParameters name = Inl (ParameterError name)"

text \<open>
  The theorems below hold for every runtime. To state a kernel on concrete inputs one
  instance is needed. In this one the numeric primitives and the rendering are
  placeholders, and package \<open>regexp\<close> knows the literal expressions only: a text of
  letters and digits compiles to itself and matches the inputs that contain it, any
  other text is refused.
\<close>

definition containsText :: "string \<Rightarrow> string \<Rightarrow> bool" where
  "containsText p s = list_ex (\<lambda>k. take (length p) (drop k s) = p) [0..<Suc (length s)]"

definition isLiteralText :: "string \<Rightarrow> bool" where
  "isLiteralText p =
     list_all (\<lambda>c. c \<in> set ''abcdefghijklmnopqrstuvwxyzABCDEFGHIJKLMNOPQRSTUVWXYZ0123456789'') p"

definition sampleRuntime :: runtime where
  "sampleRuntime =
     \<lparr>f32_add = (\<lambda>a b. 0),
      f32_sub = (\<lambda>a b. 0),
      f32_mul = (\<lambda>a b. 0),
      f32_div = (\<lambda>a b. 0),
      f64_of_f32 = (\<lambda>a. 0),
      f32_of_f64 = (\<lambda>a. 0),
      math_Pow = (\<lambda>a b. 0),
      math_Mod = (\<lambda>a b. 0),
      int64_of_f32 = (\<lambda>a. 0),
      uint64_of_f32 = (\<lambda>a. 0),
      f32_of_int = (\<lambda>n. 0),
      fmt_v = (\<lambda>v. ''?''),
      regexp_Compile = (\<lambda>p. if isLiteralText p then Inr (Regexp p)
                              else Inl ''error parsing regexp''),
      regexp_Match = (\<lambda>re s. case re of Regexp p \<Rightarrow> containsText p s)\<rparr>"

text \<open>Two stages in a store, with their children at the addresses 2 to 5.\<close>

definition plusStage :: evaluationStage where
  "plusStage =
     \<lparr>symbol = PLUS, leftStage = Some 2, rightStage = Some 3,
      operator = Some (addStage sampleRuntime),
      leftTypeCheck = None, rightTypeCheck = None,
      typeCheck = Some additionTypeCheck,
      typeErrorFormat = modifierErrorFormat\<rparr>"

definition andStageNode :: evaluationStage where
  "andStageNode =
     \<lparr>symbol = AND_SYM, leftStage = Some 4, rightStage = Some 5,
      operator = Some andStage,
      leftTypeCheck = Some isBool, rightTypeCheck = Some isBool,
      typeCheck = None,
      typeErrorFormat = logicalErrorFormat\<rparr>"

definition sampleStore :: store where
  "sampleStore = Map.empty(0 \<mapsto> plusStage, 1 \<mapsto> andStageNode)"

section \<open>Properties\<close>

subsection \<open>The broadcasting block on each shape of operands\<close>

lemma assert_not_float32:
  "\<not> isFloat32 v \<Longrightarrow> snd (assertFloat32s v) = False \<and> snd (assertFloat32 v) = False"
  by (cases v) simp_all

lemma isString_not_float32: "isString v \<Longrightarrow> \<not> isFloat32 v"
  by (cases v) simp_all

lemma float32Block_left_not_float32:
  "\<not> isFloat32 left \<Longrightarrow> float32Block f bs b name left right = Inl (InvalidOperand name)"
  using assert_not_float32 [of left]
  by (simp add: float32Block_def case_prod_beta)

lemma float32Block_right_not_float32:
  "\<not> isFloat32 right \<Longrightarrow> float32Block f bs b name left right = Inl (InvalidOperand name)"
  using assert_not_float32 [of right]
  by (simp add: float32Block_def case_prod_beta)

lemma float32Block_vv:
  "float32Block f bs b name (Float32s xs) (Float32s ys) =
     (if length xs \<noteq> length ys then Inl (DifferentArraySizes (length xs) (length ys))
      else Inr (bs (map (\<lambda>i. f (xs ! i) (ys ! i)) [0..<length xs])))"
  by (simp add: float32Block_def)

lemma float32Block_vs:
  "float32Block f bs b name (Float32s xs) (Float32 y) =
     Inr (bs (map (\<lambda>i. f (xs ! i) y) [0..<length xs]))"
  by (simp add: float32Block_def)

lemma float32Block_sv:
  "float32Block f bs b name (Float32 x) (Float32s ys) =
     Inr (bs (map (\<lambda>i. f x (ys ! i)) [0..<length ys]))"
  by (simp add: float32Block_def)

lemma float32Block_ss:
  "float32Block f bs b name (Float32 x) (Float32 y) = Inr (b (f x y))"
  by (simp add: float32Block_def)

subsection \<open>Equality rejects strings\<close>

text \<open>
  Claim C5. The kernels of \<open>==\<close> and \<open>!=\<close> are numeric only: as soon as one operand
  is a string, \<open>equalStage\<close> returns the error "invalid operand for ==" and
  \<open>notEqualStage\<close> the error "invalid operand for !=", and neither returns a value;
  no string is ever compared.
\<close>

theorem equality_kernels_reject_strings:
  assumes "isString left \<or> isString right"
  shows "equalStage left right parameters = Inl (InvalidOperand ''=='')
       \<and> notEqualStage left right parameters = Inl (InvalidOperand ''!='')"
proof -
  from assms have "\<not> isFloat32 left \<or> \<not> isFloat32 right"
    using isString_not_float32 by blast
  then show ?thesis
    unfolding equalStage_def notEqualStage_def
    using float32Block_left_not_float32 float32Block_right_not_float32 by metis
qed

theorem equality_kernels_reject_strings_witness:
  "isString (Str ''a'')
   \<and> equalStage (Str ''a'') (Str ''a'') (\<lambda>k. Inl (ParameterError k)) = Inl (InvalidOperand ''=='')
   \<and> notEqualStage (Str ''a'') (Float32 0) (\<lambda>k. Inl (ParameterError k)) = Inl (InvalidOperand ''!='')"
  using equality_kernels_reject_strings [of "Str ''a''" "Str ''a''" "\<lambda>k. Inl (ParameterError k)"]
        equality_kernels_reject_strings [of "Str ''a''" "Float32 0" "\<lambda>k. Inl (ParameterError k)"]
  by simp

subsection \<open>Facts about the float patterns\<close>

lemma SmallestNonzeroFloat32_valof:
  "f32_valof SmallestNonzeroFloat32 = math_SmallestNonzeroFloat32"
  by (simp add: f32_valof_def f32_magnitude_def f32_sign_def f32_exponent_def f32_fraction_def
      SmallestNonzeroFloat32_def math_SmallestNonzeroFloat32_def bit_numeral_iff)

lemma f32_valof_smallest_subnormal: "f32_valof 0x00000001 = 1 / 2 ^ 149"
  using SmallestNonzeroFloat32_valof
  by (simp add: SmallestNonzeroFloat32_def math_SmallestNonzeroFloat32_def)

lemma f32_valof_smallest_normal: "f32_valof 0x00800000 = 1 / 2 ^ 126"
  by (simp add: f32_valof_def f32_magnitude_def f32_sign_def f32_exponent_def f32_fraction_def)

lemma f32_isNormal_smallest_normal: "f32_isNormal 0x00800000"
  by (simp add: f32_isNormal_def f32_exponent_def)

lemma f32_isNormal_smallest_subnormal: "\<not> f32_isNormal 0x00000001"
  by (simp add: f32_isNormal_def f32_exponent_def)

lemma f32_eq_zero_iff: "f32_eq 0 w \<longleftrightarrow> f32_isZero w"
  by (auto simp: f32_eq_def f32_isNaN_def f32_isZero_def f32_exponent_def f32_fraction_def)

lemma f32_eq_smallest_refl: "f32_eq 0x00000001 0x00000001"
  by (simp add: f32_eq_def f32_isNaN_def f32_exponent_def)

lemma f32_eq_two_smallest: "\<not> f32_eq 0x40000000 0x00000001"
  by (simp add: f32_eq_def f32_isZero_def f32_exponent_def)

lemma f32_eq_zero_smallest: "\<not> f32_eq 0 0x00000001"
  by (simp add: f32_eq_zero_iff f32_isZero_def f32_fraction_def)

lemma f32_eq_zero_zero: "f32_eq 0 0"
  by (simp add: f32_eq_zero_iff f32_isZero_def f32_fraction_def f32_exponent_def)

lemma f32_gt_one_two: "\<not> f32_gt 0x3F800000 0x40000000"
  by (simp add: f32_gt_def f32_lt_def f32_key_def f32_sign_def f32_isNaN_def f32_exponent_def
      f32_fraction_def)

lemma f32_gt_three_two: "f32_gt 0x40400000 0x40000000"
  by (simp add: f32_gt_def f32_lt_def f32_key_def f32_sign_def f32_isNaN_def f32_exponent_def
      f32_fraction_def)

text \<open>The fields of a pattern, arithmetically; the two zeros.\<close>

lemma f32_fraction_mod: "f32_fraction w = unat w mod 2 ^ 23"
proof -
  have "(0x7FFFFF :: 32 word) = mask 23"
    by (simp add: mask_eq_exp_minus_1)
  then have "w AND 0x7FFFFF = take_bit 23 w"
    by (simp add: take_bit_eq_mask)
  then show ?thesis
    by (simp add: f32_fraction_def unsigned_take_bit_eq take_bit_eq_mod unat_mod_distrib)
qed

lemma f32_exponent_div: "f32_exponent w = (unat w div 2 ^ 23) mod 2 ^ 8"
proof -
  have "(0xFF :: 32 word) = mask 8"
    by (simp add: mask_eq_exp_minus_1)
  then have "drop_bit 23 w AND 0xFF = take_bit 8 (drop_bit 23 w)"
    by (simp add: take_bit_eq_mask)
  then show ?thesis
    by (simp add: f32_exponent_def unsigned_take_bit_eq take_bit_eq_mod unat_drop_bit_eq
        drop_bit_eq_div unat_mod_distrib unat_div_distrib)
qed

lemma f32_isZero_iff: "f32_isZero w \<longleftrightarrow> w = 0 \<or> w = 0x80000000"
proof
  assume "f32_isZero w"
  then have m: "unat w mod 2 ^ 23 = 0" and e: "(unat w div 2 ^ 23) mod 2 ^ 8 = 0"
    by (simp_all add: f32_isZero_def f32_fraction_mod f32_exponent_div)
  have lt: "unat w < 2 ^ 32" using unsigned_less [of w] by simp
  from m obtain k where k: "unat w = 2 ^ 23 * k" by (auto elim: dvdE simp: mod_eq_0_iff_dvd)
  with e have "k mod 2 ^ 8 = 0" by simp
  then obtain j where j: "k = 2 ^ 8 * j" by (auto elim: dvdE simp: mod_eq_0_iff_dvd)
  with k have n: "unat w = 2 ^ 31 * j" by simp
  with lt have "j < 2" by simp
  then have "j = 0 \<or> j = 1" by auto
  with n have "unat w = 0 \<or> unat w = 2 ^ 31" by auto
  then show "w = 0 \<or> w = 0x80000000"
  proof
    assume "unat w = 0" then show ?thesis by (simp add: unat_eq_0)
  next
    assume "unat w = 2 ^ 31"
    then have "unat w = unat (0x80000000 :: 32 word)" by simp
    then have "w = 0x80000000" by (rule word_unat_eq_iff [THEN iffD2])
    then show ?thesis by (rule disjI2)
  qed
next
  assume "w = 0 \<or> w = 0x80000000"
  then show "f32_isZero w"
    by (auto simp: f32_isZero_def f32_exponent_def f32_fraction_def)
qed

text \<open>
  \<open>SmallestNonzeroFloat32\<close> is the least positive value of a pattern, and
  \<open>0x00800000\<close> the least positive normal one.
\<close>

lemma f32_fraction_bound: "f32_fraction w < 2 ^ 23"
proof -
  have "w AND 0x7FFFFF \<le> 0x7FFFFF"
    by (rule word_and_le1)
  then have "unat (w AND 0x7FFFFF) \<le> unat (0x7FFFFF :: 32 word)"
    by (simp add: word_le_nat_alt)
  then show ?thesis by (simp add: f32_fraction_def)
qed

lemma f32_magnitude_nonneg: "0 \<le> f32_magnitude w"
  by (simp add: f32_magnitude_def)

lemma f32_smallest_positive:
  assumes "0 < f32_valof w"
  shows "f32_valof SmallestNonzeroFloat32 \<le> f32_valof w"
proof -
  from assms f32_magnitude_nonneg [of w] have pos: "\<not> f32_sign w" "0 < f32_magnitude w"
    by (auto simp: f32_valof_def split: if_splits)
  have small: "f32_valof SmallestNonzeroFloat32 = 1 / 2 ^ 149"
    by (simp add: SmallestNonzeroFloat32_valof math_SmallestNonzeroFloat32_def)
  have "1 / 2 ^ 149 \<le> f32_magnitude w"
  proof (cases "f32_exponent w = 0")
    case True
    with pos(2) have "1 \<le> f32_fraction w" by (simp add: f32_magnitude_def)
    then have "1 / 2 ^ 149 \<le> real (f32_fraction w) / 2 ^ 149"
      by (simp add: divide_right_mono)
    with True show ?thesis by (simp add: f32_magnitude_def)
  next
    case False
    show ?thesis
    proof (cases "f32_exponent w < 150")
      case True
      have "(2::real) ^ (150 - f32_exponent w) \<le> 2 ^ 149"
        using False by (intro power_increasing) auto
      then have "1 / 2 ^ 149 \<le> 1 / (2::real) ^ (150 - f32_exponent w)"
        by (simp add: frac_le)
      also have "\<dots> \<le> real (2 ^ 23 + f32_fraction w) / 2 ^ (150 - f32_exponent w)"
        by (intro divide_right_mono) auto
      finally show ?thesis using False True by (simp add: f32_magnitude_def)
    next
      case ge: False
      have "(1::real) \<le> real (2 ^ 23 + f32_fraction w) * 2 ^ (f32_exponent w - 150)"
        by (intro mult_ge1_I) auto
      moreover have "1 / 2 ^ 149 \<le> (1::real)" by simp
      ultimately show ?thesis using False ge by (simp add: f32_magnitude_def)
    qed
  qed
  with pos(1) small show ?thesis by (simp add: f32_valof_def)
qed

lemma f32_smallest_normal:
  assumes "f32_isNormal w" and "\<not> f32_sign w"
  shows "f32_valof 0x00800000 \<le> f32_valof w"
proof -
  from assms(1) have e: "1 \<le> f32_exponent w" by (simp add: f32_isNormal_def)
  have "1 / 2 ^ 126 \<le> f32_magnitude w"
  proof (cases "f32_exponent w < 150")
    case True
    have "(2::real) ^ (150 - f32_exponent w) \<le> 2 ^ 149"
      using e by (intro power_increasing) auto
    then have "2 ^ 23 / 2 ^ 149 \<le> 2 ^ 23 / (2::real) ^ (150 - f32_exponent w)"
      by (intro divide_left_mono) auto
    also have "\<dots> \<le> real (2 ^ 23 + f32_fraction w) / 2 ^ (150 - f32_exponent w)"
      by (intro divide_right_mono) auto
    finally show ?thesis using e True by (simp add: f32_magnitude_def)
  next
    case False
    have "(1::real) \<le> real (2 ^ 23 + f32_fraction w) * 2 ^ (f32_exponent w - 150)"
      by (intro mult_ge1_I) auto
    moreover have "1 / 2 ^ 126 \<le> (1::real)" by simp
    ultimately show ?thesis using e False by (simp add: f32_magnitude_def)
  qed
  with assms(2) show ?thesis
    by (simp add: f32_valof_smallest_normal) (simp add: f32_valof_def)
qed

lemma getNoData_noParameters: "getNoData noParameters = Inr 0x00000001"
  by (simp add: getNoData_def noParameters_def SmallestNonzeroFloat32_def)

lemma getNoData_given:
  "getNoData (noParameters(''nodata'' := Inr (Float32 v))) = Inr v"
  by (simp add: getNoData_def)

subsection \<open>The kernels of a family are instances of the block\<close>

lemma assert_not_bool:
  "\<not> isBool v \<Longrightarrow> snd (assertBooleans v) = False \<and> snd (assertBoolean v) = False"
  by (cases v) simp_all

lemma boolBlock_vv:
  "boolBlock f name (Booleans xs) (Booleans ys) =
     (if length xs \<noteq> length ys then Inl (DifferentArraySizes (length xs) (length ys))
      else Inr (Booleans (map (\<lambda>i. f (xs ! i) (ys ! i)) [0..<length xs])))"
  by (simp add: boolBlock_def)

lemma numericKernels_cases:
  assumes "op \<in> set (numericKernels rt)"
  obtains "op = addStage rt" | "op = subtractStage rt" | "op = multiplyStage rt"
    | "op = divideStage rt" | "op = exponentStage rt" | "op = modulusStage rt"
    | "op = gteStage" | "op = gtStage" | "op = lteStage" | "op = ltStage"
    | "op = equalStage" | "op = notEqualStage"
    | "op = bitwiseOrStage rt" | "op = bitwiseAndStage rt" | "op = bitwiseXORStage rt"
    | "op = leftShiftStage rt" | "op = rightShiftStage rt"
  using assms unfolding numericKernels_def by auto

text \<open>
  On two numbers (scalars or vectors), each of the seventeen kernels is the block with
  some element operation and some operator name, boxed as numbers or as bools.
\<close>

lemma numeric_kernel_is_block:
  assumes "op \<in> set (numericKernels rt)"
  shows "(\<exists>f name. \<forall>l r p. isFloat32 l \<longrightarrow> isFloat32 r \<longrightarrow>
            op l r p = float32Block f Float32s Float32 name l r)
       \<or> (\<exists>f name. \<forall>l r p. isFloat32 l \<longrightarrow> isFloat32 r \<longrightarrow>
            op l r p = float32Block f Booleans Boolean name l r)"
proof -
  have nostr: "\<And>v. isFloat32 v \<Longrightarrow> \<not> isString v"
    using isString_not_float32 by blast
  from assms show ?thesis
  proof (cases rule: numericKernels_cases)
    case 1 then show ?thesis using nostr unfolding addStage_def by auto
  next
    case 2 then show ?thesis unfolding subtractStage_def by auto
  next
    case 3 then show ?thesis unfolding multiplyStage_def by auto
  next
    case 4 then show ?thesis unfolding divideStage_def by auto
  next
    case 5 then show ?thesis unfolding exponentStage_def by auto
  next
    case 6 then show ?thesis unfolding modulusStage_def by auto
  next
    case 7 then show ?thesis using nostr unfolding gteStage_def by auto
  next
    case 8 then show ?thesis using nostr unfolding gtStage_def by auto
  next
    case 9 then show ?thesis using nostr unfolding lteStage_def by auto
  next
    case 10 then show ?thesis using nostr unfolding ltStage_def by auto
  next
    case 11 then show ?thesis unfolding equalStage_def by auto
  next
    case 12 then show ?thesis unfolding notEqualStage_def by auto
  next
    case 13 then show ?thesis unfolding bitwiseOrStage_def by auto
  next
    case 14 then show ?thesis unfolding bitwiseAndStage_def by auto
  next
    case 15 then show ?thesis unfolding bitwiseXORStage_def by auto
  next
    case 16 then show ?thesis unfolding leftShiftStage_def by auto
  next
    case 17 then show ?thesis unfolding rightShiftStage_def by auto
  qed
qed

lemma numeric_kernel_on_numbers:
  assumes "op \<in> set (numericKernels rt)"
  obtains (numbers) f name where
      "\<And>l r p. isFloat32 l \<Longrightarrow> isFloat32 r \<Longrightarrow>
         op l r p = float32Block f Float32s Float32 name l r"
    | (bools) f name where
      "\<And>l r p. isFloat32 l \<Longrightarrow> isFloat32 r \<Longrightarrow>
         op l r p = float32Block f Booleans Boolean name l r"
  using numeric_kernel_is_block [OF assms] by blast

subsection \<open>Broadcasting\<close>

lemma float32Block_broadcast_numbers:
  fixes f :: "float32 \<Rightarrow> float32 \<Rightarrow> float32" and name :: string
  defines "k \<equiv> float32Block f Float32s Float32 name"
  shows "(\<exists>res. k (Float32s v) (Float32 s) = Inr res \<and> vectorLength res = Some (length v)
            \<and> (\<forall>i<length v. k (Float32 (v ! i)) (Float32 s) = Inr (lane res i)))
       \<and> (\<exists>res. k (Float32 s) (Float32s v) = Inr res \<and> vectorLength res = Some (length v)
            \<and> (\<forall>i<length v. k (Float32 s) (Float32 (v ! i)) = Inr (lane res i)))"
  unfolding k_def by (simp add: float32Block_vs float32Block_sv float32Block_ss)

lemma float32Block_broadcast_bools:
  fixes f :: "float32 \<Rightarrow> float32 \<Rightarrow> bool" and name :: string
  defines "k \<equiv> float32Block f Booleans Boolean name"
  shows "(\<exists>res. k (Float32s v) (Float32 s) = Inr res \<and> vectorLength res = Some (length v)
            \<and> (\<forall>i<length v. k (Float32 (v ! i)) (Float32 s) = Inr (lane res i)))
       \<and> (\<exists>res. k (Float32 s) (Float32s v) = Inr res \<and> vectorLength res = Some (length v)
            \<and> (\<forall>i<length v. k (Float32 s) (Float32 (v ! i)) = Inr (lane res i)))"
  unfolding k_def by (simp add: float32Block_vs float32Block_sv float32Block_ss)

text \<open>
  Claim C2. Broadcasting law: for each of the seventeen numeric kernels \<open>op\<close>, every
  vector \<open>v\<close> and every scalar \<open>s\<close>, both \<open>op(v, s)\<close> and \<open>op(s, v)\<close> succeed with a
  vector of the length of \<open>v\<close>, and lane \<open>i\<close> of the result is what \<open>op\<close> returns on
  the scalars \<open>v[i]\<close> and \<open>s\<close> (respectively \<open>s\<close> and \<open>v[i]\<close>), for every \<open>i\<close>
  below that length.
\<close>

theorem broadcasting_law:
  "\<forall>op \<in> set (numericKernels rt).
     (\<exists>res. op (Float32s v) (Float32 s) parameters = Inr res
         \<and> vectorLength res = Some (length v)
         \<and> (\<forall>i<length v. op (Float32 (v ! i)) (Float32 s) parameters = Inr (lane res i)))
   \<and> (\<exists>res. op (Float32 s) (Float32s v) parameters = Inr res
         \<and> vectorLength res = Some (length v)
         \<and> (\<forall>i<length v. op (Float32 s) (Float32 (v ! i)) parameters = Inr (lane res i)))"
proof
  fix op assume "op \<in> set (numericKernels rt)"
  then show "(\<exists>res. op (Float32s v) (Float32 s) parameters = Inr res
         \<and> vectorLength res = Some (length v)
         \<and> (\<forall>i<length v. op (Float32 (v ! i)) (Float32 s) parameters = Inr (lane res i)))
   \<and> (\<exists>res. op (Float32 s) (Float32s v) parameters = Inr res
         \<and> vectorLength res = Some (length v)
         \<and> (\<forall>i<length v. op (Float32 s) (Float32 (v ! i)) parameters = Inr (lane res i)))"
  proof (cases rule: numeric_kernel_on_numbers)
    case (numbers f name)
    show ?thesis
      using float32Block_broadcast_numbers [of f name v s] by (simp add: numbers)
  next
    case (bools f name)
    show ?thesis
      using float32Block_broadcast_bools [of f name v s] by (simp add: bools)
  qed
qed

lemma gtStage_sample_vector:
  "gtStage (Float32s [0x3F800000, 0x40400000]) (Float32 0x40000000) noParameters
     = Inr (Booleans [False, True])"
  by (simp add: gtStage_def float32Block_vs f32_gt_one_two f32_gt_three_two)

theorem broadcasting_law_witness:
  "gtStage \<in> set (numericKernels sampleRuntime)
   \<and> gtStage (Float32s [0x3F800000, 0x40400000]) (Float32 0x40000000) noParameters
       = Inr (Booleans [False, True])
   \<and> gtStage (Float32 0x3F800000) (Float32 0x40000000) noParameters = Inr (Boolean False)
   \<and> gtStage (Float32 0x40400000) (Float32 0x40000000) noParameters = Inr (Boolean True)"
proof -
  have mem: "gtStage \<in> set (numericKernels sampleRuntime)"
    by (simp add: numericKernels_def)
  from broadcasting_law [of sampleRuntime "[0x3F800000, 0x40400000]" "0x40000000" noParameters]
    mem
  obtain res where
    res: "gtStage (Float32s [0x3F800000, 0x40400000]) (Float32 0x40000000) noParameters = Inr res"
      "\<forall>i<length [0x3F800000, 0x40400000 :: float32].
         gtStage (Float32 ([0x3F800000, 0x40400000] ! i)) (Float32 0x40000000) noParameters
           = Inr (lane res i)"
    by blast
  from res(1) have shape: "res = Booleans [False, True]"
    by (simp add: gtStage_sample_vector)
  have "gtStage (Float32 0x3F800000) (Float32 0x40000000) noParameters = Inr (Boolean False)"
    using res(2) [rule_format, of 0] by (simp add: shape)
  moreover
  have "gtStage (Float32 0x40400000) (Float32 0x40000000) noParameters = Inr (Boolean True)"
    using res(2) [rule_format, of 1] by (simp add: shape)
  ultimately show ?thesis using mem gtStage_sample_vector by simp
qed

text \<open>
  \<open>ternaryElseStage\<close> has its own copy of the block; it broadcasts in the same way
  once NoData resolves.
\<close>

lemma ternaryElse_broadcast:
  assumes "getNoData parameters = Inr noData"
  shows "(\<exists>res. ternaryElseStage (Float32s v) (Float32 s) parameters = Inr res
            \<and> vectorLength res = Some (length v)
            \<and> (\<forall>i<length v. ternaryElseStage (Float32 (v ! i)) (Float32 s) parameters
                   = Inr (lane res i)))
       \<and> (\<exists>res. ternaryElseStage (Float32 s) (Float32s v) parameters = Inr res
            \<and> vectorLength res = Some (length v)
            \<and> (\<forall>i<length v. ternaryElseStage (Float32 s) (Float32 (v ! i)) parameters
                   = Inr (lane res i)))"
  using assms by (simp add: ternaryElseStage_def)

subsection \<open>Unequal lengths\<close>

lemma numeric_kernel_vv:
  assumes "op \<in> set (numericKernels rt)" and "length xs \<noteq> length ys"
  shows "op (Float32s xs) (Float32s ys) parameters
           = Inl (DifferentArraySizes (length xs) (length ys))"
  using assms(1)
proof (cases rule: numeric_kernel_on_numbers)
  case (numbers f name)
  with assms(2) show ?thesis by (simp add: float32Block_vv)
next
  case (bools f name)
  with assms(2) show ?thesis by (simp add: float32Block_vv)
qed

lemma logical_kernel_vv:
  assumes "op \<in> set logicalKernels" and "length bs \<noteq> length cs"
  shows "op (Booleans bs) (Booleans cs) parameters
           = Inl (DifferentArraySizes (length bs) (length cs))"
proof -
  from assms(1) have "op = andStage \<or> op = orStage"
    by (simp add: logicalKernels_def)
  with assms(2) show ?thesis
    by (auto simp: andStage_def orStage_def boolBlock_vv)
qed

lemma ternaryElse_vv:
  assumes "length xs \<noteq> length ys"
  shows "ternaryElseStage (Float32s xs) (Float32s ys) parameters =
           (case getNoData parameters of
              Inl err \<Rightarrow> Inl err
            | Inr noData \<Rightarrow> Inl (DifferentArraySizes (length xs) (length ys)))"
  using assms by (simp add: ternaryElseStage_def split: sum.splits)

lemma ternaryIf_vv:
  assumes "length bs \<noteq> length ys"
  shows "ternaryIfStage (Booleans bs) (Float32s ys) parameters =
           (case getNoData parameters of
              Inl err \<Rightarrow> Inl err
            | Inr noData \<Rightarrow> Inl (DifferentArraySizes (length bs) (length ys)))"
  using assms by (simp add: ternaryIfStage_def split: sum.splits)

text \<open>
  Claim C3, as amended. On two vectors of unequal lengths, each of the seventeen numeric
  kernels (two \<open>[]float32\<close>) and each of the two logical kernels (two \<open>[]bool\<close>)
  returns the error "different array sizes" with both lengths, and no value: nothing is
  truncated or padded. The ternary kernels (\<open>ternaryElseStage\<close> on two \<open>[]float32\<close>,
  \<open>ternaryIfStage\<close> on a \<open>[]bool\<close> and a \<open>[]float32\<close>) resolve NoData first: they
  return that same error when NoData resolves, and the error of NoData otherwise.
\<close>

theorem unequal_lengths_shape_error:
  "(length xs \<noteq> length ys \<longrightarrow>
      (\<forall>op \<in> set (numericKernels rt).
         op (Float32s xs) (Float32s ys) parameters
           = Inl (DifferentArraySizes (length xs) (length ys))))
   \<and> (length bs \<noteq> length cs \<longrightarrow>
      (\<forall>op \<in> set logicalKernels.
         op (Booleans bs) (Booleans cs) parameters
           = Inl (DifferentArraySizes (length bs) (length cs))))
   \<and> (length xs \<noteq> length ys \<longrightarrow>
        ternaryElseStage (Float32s xs) (Float32s ys) parameters =
          (case getNoData parameters of
             Inl err \<Rightarrow> Inl err
           | Inr noData \<Rightarrow> Inl (DifferentArraySizes (length xs) (length ys))))
   \<and> (length bs \<noteq> length ys \<longrightarrow>
        ternaryIfStage (Booleans bs) (Float32s ys) parameters =
          (case getNoData parameters of
             Inl err \<Rightarrow> Inl err
           | Inr noData \<Rightarrow> Inl (DifferentArraySizes (length bs) (length ys))))"
  using numeric_kernel_vv logical_kernel_vv ternaryElse_vv ternaryIf_vv by blast

theorem unequal_lengths_shape_error_witness:
  "length [0x3F800000 :: float32] \<noteq> length [0x3F800000, 0x40000000 :: float32]
   \<and> gtStage \<in> set (numericKernels sampleRuntime)
   \<and> gtStage (Float32s [0x3F800000]) (Float32s [0x3F800000, 0x40000000]) noParameters
        = Inl (DifferentArraySizes 1 2)
   \<and> orStage \<in> set logicalKernels
   \<and> orStage (Booleans [True]) (Booleans [True, False]) noParameters
        = Inl (DifferentArraySizes 1 2)
   \<and> ternaryElseStage (Float32s [0x3F800000]) (Float32s [0x3F800000, 0x40000000]) noParameters
        = Inl (DifferentArraySizes 1 2)
   \<and> ternaryIfStage (Booleans [True]) (Float32s [0x3F800000, 0x40000000]) noParameters
        = Inl (DifferentArraySizes 1 2)"
  using unequal_lengths_shape_error
          [of "[0x3F800000]" "[0x3F800000, 0x40000000]" sampleRuntime noParameters
              "[True]" "[True, False]"]
  by (simp add: numericKernels_def logicalKernels_def getNoData_noParameters)

text \<open>
  The claim as stated fails on \<open>ternaryElseStage\<close>: with a parameter \<open>nodata\<close> that is
  a string, two vectors of lengths 1 and 2 get the error of NoData, not the error of the
  lengths.
\<close>

theorem shape_error_counterexample:
  "length [0 :: float32] \<noteq> length [0, 0 :: float32]
   \<and> ternaryElseStage (Float32s [0]) (Float32s [0, 0])
        (noParameters(''nodata'' := Inr (Str ''none'')))
      = Inl (InvalidNoData (Str ''none''))
   \<and> ternaryElseStage (Float32s [0]) (Float32s [0, 0])
        (noParameters(''nodata'' := Inr (Str ''none'')))
      \<noteq> Inl (DifferentArraySizes 1 2)"
  by (simp add: ternaryElseStage_def getNoData_def)

subsection \<open>The ternary identity\<close>

text \<open>
  Claim C1, as amended. Let \<open>cond\<close> be a bool or a bool vector and \<open>a\<close>, \<open>b\<close> numbers
  or number vectors, all vectors among them of one length \<open>n\<close>. If NoData resolves to a
  sentinel that equals itself (it is not a NaN), and no lane of \<open>a\<close> that a true condition
  selects equals the sentinel, then \<open>ternaryElseStage(ternaryIfStage(cond, a), b)\<close>
  succeeds and is, lane by lane, \<open>a\<close> where \<open>cond\<close> is true and \<open>b\<close> where it is
  false, whatever the scalar or vector shapes of the three.
\<close>

theorem ternary_identity:
  assumes nd: "getNoData parameters = Inr noData" and refl: "f32_eq noData noData"
    and c: "isBool c" "hasShape n c"
    and a: "isFloat32 a" "hasShape n a"
    and b: "isFloat32 b" "hasShape n b"
    and distinct:
      "\<forall>i < ternaryLanes n c a b. boolLane c i \<longrightarrow> \<not> f32_eq (float32Lane a i) noData"
  shows "\<exists>r. ternaryIfStage c a parameters = Inr r
            \<and> ternaryElseStage r b parameters = Inr (ternarySelect n c a b)"
proof -
  note defs = ternaryIfStage_def ternaryElseStage_def ternarySelect_def ternaryLanes_def
    hasShape_def isVector_def
  from c(1) consider (cs) x where "c = Boolean x" | (cv) xs where "c = Booleans xs"
    by (cases c) simp_all
  moreover
  from a(1) consider (as) y where "a = Float32 y" | (av) ys where "a = Float32s ys"
    by (cases a) simp_all
  moreover
  from b(1) consider (bs) z where "b = Float32 z" | (bv) zs where "b = Float32s zs"
    by (cases b) simp_all
  ultimately consider
      (sss) x y z where "c = Boolean x" "a = Float32 y" "b = Float32 z"
    | (ssv) x y zs where "c = Boolean x" "a = Float32 y" "b = Float32s zs"
    | (svs) x ys z where "c = Boolean x" "a = Float32s ys" "b = Float32 z"
    | (svv) x ys zs where "c = Boolean x" "a = Float32s ys" "b = Float32s zs"
    | (vss) xs y z where "c = Booleans xs" "a = Float32 y" "b = Float32 z"
    | (vsv) xs y zs where "c = Booleans xs" "a = Float32 y" "b = Float32s zs"
    | (vvs) xs ys z where "c = Booleans xs" "a = Float32s ys" "b = Float32 z"
    | (vvv) xs ys zs where "c = Booleans xs" "a = Float32s ys" "b = Float32s zs"
    by metis
  then show ?thesis
  proof cases
    case sss
    with nd refl distinct show ?thesis by (simp add: defs)
  next
    case ssv
    with nd refl distinct b(2) show ?thesis by (auto simp: defs)
  next
    case svs
    with nd refl distinct a(2) show ?thesis by (auto simp: defs)
  next
    case svv
    with nd refl distinct a(2) b(2) show ?thesis by (auto simp: defs)
  next
    case vss
    with nd refl distinct c(2) show ?thesis by (auto simp: defs)
  next
    case vsv
    with nd refl distinct c(2) b(2) show ?thesis by (auto simp: defs)
  next
    case vvs
    with nd refl distinct c(2) a(2) show ?thesis by (auto simp: defs)
  next
    case vvv
    with nd refl distinct c(2) a(2) b(2) show ?thesis by (auto simp: defs)
  qed
qed

text \<open>
  The scenario \<open>(x > 0) ? x : -x\<close> on \<open>x = [-1, 2, -3]\<close>: its condition and its
  alternative.
\<close>

lemma scenario_condition:
  "gtStage (Float32s [0xBF800000, 0x40000000, 0xC0400000]) (Float32 0) noParameters
     = Inr (Booleans [False, True, False])"
  by (simp add: gtStage_def float32Block_vs f32_gt_def f32_lt_def f32_key_def f32_sign_def
      f32_isNaN_def f32_exponent_def f32_fraction_def upt_rec)

lemma scenario_alternative:
  "negateStage NilValue (Float32s [0xBF800000, 0x40000000, 0xC0400000]) noParameters
     = Inr (Float32s [0x3F800000, 0xC0000000, 0x40400000])"
  by (simp add: negateStage_def f32_neg_def upt_rec)

lemma ternaryLanes_sample:
  "ternaryLanes 3 (Booleans [False, True, False]) (Float32s [0xBF800000, 0x40000000, 0xC0400000])
     (Float32s [0x3F800000, 0xC0000000, 0x40400000]) = 3"
  by (simp add: ternaryLanes_def isVector_def)

lemma ternarySelect_sample:
  "ternarySelect 3 (Booleans [False, True, False]) (Float32s [0xBF800000, 0x40000000, 0xC0400000])
     (Float32s [0x3F800000, 0xC0000000, 0x40400000])
   = Float32s [0x3F800000, 0x40000000, 0x40400000]"
  by (simp add: ternarySelect_def isVector_def upt_rec)

lemma ternaryIfStage_sample:
  "ternaryIfStage (Booleans [False, True, False]) (Float32s [0xBF800000, 0x40000000, 0xC0400000])
     noParameters = Inr (Float32s [0x00000001, 0x40000000, 0x00000001])"
  by (simp add: ternaryIfStage_def getNoData_noParameters upt_rec)

text \<open>
  The scenario \<open>(x > 0) ? x : -x\<close> on \<open>x = [-1, 2, -3]\<close> with the default sentinel:
  the condition is \<open>[false, true, false]\<close>, the alternative \<open>[1, -2, 3]\<close>, the result
  \<open>[1, 2, 3]\<close>.
\<close>

theorem ternary_identity_witness:
  "getNoData noParameters = Inr 0x00000001
   \<and> f32_eq 0x00000001 0x00000001
   \<and> isBool (Booleans [False, True, False]) \<and> hasShape 3 (Booleans [False, True, False])
   \<and> isFloat32 (Float32s [0xBF800000, 0x40000000, 0xC0400000])
   \<and> hasShape 3 (Float32s [0xBF800000, 0x40000000, 0xC0400000])
   \<and> isFloat32 (Float32s [0x3F800000, 0xC0000000, 0x40400000])
   \<and> hasShape 3 (Float32s [0x3F800000, 0xC0000000, 0x40400000])
   \<and> \<not> f32_eq 0x40000000 0x00000001
   \<and> ternaryIfStage (Booleans [False, True, False])
        (Float32s [0xBF800000, 0x40000000, 0xC0400000]) noParameters
      = Inr (Float32s [0x00000001, 0x40000000, 0x00000001])
   \<and> ternaryElseStage (Float32s [0x00000001, 0x40000000, 0x00000001])
        (Float32s [0x3F800000, 0xC0000000, 0x40400000]) noParameters
      = Inr (Float32s [0x3F800000, 0x40000000, 0x40400000])"
proof -
  let ?c = "Booleans [False, True, False]"
  let ?a = "Float32s [0xBF800000, 0x40000000, 0xC0400000]"
  let ?b = "Float32s [0x3F800000, 0xC0000000, 0x40400000]"
  have shapes: "isBool ?c" "hasShape 3 ?c" "isFloat32 ?a" "hasShape 3 ?a" "isFloat32 ?b"
    "hasShape 3 ?b"
    by (simp_all add: hasShape_def)
  have distinct: "\<forall>i < ternaryLanes 3 ?c ?a ?b.
      boolLane ?c i \<longrightarrow> \<not> f32_eq (float32Lane ?a i) 0x00000001"
    unfolding ternaryLanes_sample
    by (simp add: numeral_3_eq_3 less_Suc_eq f32_eq_two_smallest)
  from ternary_identity [OF getNoData_noParameters f32_eq_smallest_refl shapes distinct]
  obtain r where r: "ternaryIfStage ?c ?a noParameters = Inr r"
    "ternaryElseStage r ?b noParameters = Inr (ternarySelect 3 ?c ?a ?b)"
    by blast
  from r(1) have "r = Float32s [0x00000001, 0x40000000, 0x00000001]"
    by (simp add: ternaryIfStage_sample)
  with r(2) have "ternaryElseStage (Float32s [0x00000001, 0x40000000, 0x00000001]) ?b noParameters
      = Inr (Float32s [0x3F800000, 0x40000000, 0x40400000])"
    by (simp add: ternarySelect_sample)
  with shapes getNoData_noParameters f32_eq_smallest_refl f32_eq_two_smallest
    ternaryIfStage_sample
  show ?thesis by simp
qed

text \<open>
  The claim as stated fails where a selected lane of \<open>a\<close> is the sentinel itself: with
  the default sentinel, \<open>cond = [true, true]\<close>, \<open>a = [sentinel, 2]\<close> and
  \<open>b = [3, 3]\<close> give \<open>[3, 2]\<close>, not \<open>a\<close>.
\<close>

theorem ternary_identity_counterexample:
  "ternaryIfStage (Booleans [True, True]) (Float32s [0x00000001, 0x40000000]) noParameters
     = Inr (Float32s [0x00000001, 0x40000000])
   \<and> ternaryElseStage (Float32s [0x00000001, 0x40000000]) (Float32s [0x40400000, 0x40400000])
       noParameters
     = Inr (Float32s [0x40400000, 0x40000000])
   \<and> Float32s [0x40400000, 0x40000000] \<noteq> Float32s [0x00000001, 0x40000000]"
  by (simp add: ternaryIfStage_def ternaryElseStage_def getNoData_noParameters upt_rec
      f32_eq_smallest_refl f32_eq_two_smallest)

subsection \<open>Resolution of NoData\<close>

lemma assertFloat32_ok: "snd (assertFloat32 v) \<longleftrightarrow> (\<exists>x. v = Float32 x)"
  by (cases v) simp_all

lemma ternary_getNoData_error:
  "getNoData parameters = Inl err \<Longrightarrow>
     ternaryIfStage left right parameters = Inl err
     \<and> ternaryElseStage left right parameters = Inl err"
  by (simp add: ternaryIfStage_def ternaryElseStage_def)

text \<open>
  Claim C4, as amended. When \<open>Get("nodata")\<close> returns an error, NoData is
  \<open>float32(math.SmallestNonzeroFloat32)\<close>: the smallest positive subnormal
  \<open>float32\<close>, of value \<open>2\<^sup>-\<^sup>1\<^sup>4\<^sup>9\<close>. When it returns a \<open>float32\<close>, NoData is that value.
  When it returns any other value, \<open>getNoData\<close> fails with "invalid nodata value", and so
  do both ternary kernels, whatever their operands.
\<close>

theorem getNoData_resolution:
  "(\<forall>err. parameters ''nodata'' = Inl err \<longrightarrow>
       getNoData parameters = Inr SmallestNonzeroFloat32)
   \<and> (\<forall>v. parameters ''nodata'' = Inr (Float32 v) \<longrightarrow> getNoData parameters = Inr v)
   \<and> (\<forall>val. parameters ''nodata'' = Inr val \<longrightarrow> (\<forall>v. val \<noteq> Float32 v) \<longrightarrow>
         getNoData parameters = Inl (InvalidNoData val)
         \<and> ternaryIfStage left right parameters = Inl (InvalidNoData val)
         \<and> ternaryElseStage left right parameters = Inl (InvalidNoData val))
   \<and> f32_valof SmallestNonzeroFloat32 = 1 / 2 ^ 149
   \<and> f32_isSubnormal SmallestNonzeroFloat32"
proof (intro conjI allI impI)
  fix err assume "parameters ''nodata'' = Inl err"
  then show "getNoData parameters = Inr SmallestNonzeroFloat32"
    by (simp add: getNoData_def)
next
  fix v assume "parameters ''nodata'' = Inr (Float32 v)"
  then show "getNoData parameters = Inr v"
    by (simp add: getNoData_def)
next
  fix val assume get: "parameters ''nodata'' = Inr val" and other: "\<forall>v. val \<noteq> Float32 v"
  from other have "\<not> snd (assertFloat32 val)"
    by (simp add: assertFloat32_ok)
  with get show bad: "getNoData parameters = Inl (InvalidNoData val)"
    by (simp add: getNoData_def case_prod_beta)
  from ternary_getNoData_error [OF bad]
  show "ternaryIfStage left right parameters = Inl (InvalidNoData val)"
    and "ternaryElseStage left right parameters = Inl (InvalidNoData val)"
    by simp_all
next
  show "f32_valof SmallestNonzeroFloat32 = 1 / 2 ^ 149"
    by (simp add: SmallestNonzeroFloat32_valof math_SmallestNonzeroFloat32_def)
next
  show "f32_isSubnormal SmallestNonzeroFloat32"
    by (simp add: f32_isSubnormal_def SmallestNonzeroFloat32_def f32_exponent_def f32_fraction_def)
qed

theorem getNoData_resolution_witness:
  "noParameters ''nodata'' = Inl (ParameterError ''nodata'')
   \<and> getNoData noParameters = Inr 0x00000001
   \<and> getNoData (noParameters(''nodata'' := Inr (Float32 0))) = Inr 0
   \<and> getNoData (noParameters(''nodata'' := Inr (Float64 0))) = Inl (InvalidNoData (Float64 0))
   \<and> ternaryIfStage (Boolean True) (Float32 0) (noParameters(''nodata'' := Inr (Float64 0)))
        = Inl (InvalidNoData (Float64 0))"
proof -
  have absent: "noParameters ''nodata'' = Inl (ParameterError ''nodata'')"
    by (simp add: noParameters_def)
  have "getNoData noParameters = Inr SmallestNonzeroFloat32"
    by (rule getNoData_resolution [THEN conjunct1, rule_format]) (rule absent)
  then have default: "getNoData noParameters = Inr 0x00000001"
    by (simp add: SmallestNonzeroFloat32_def)
  have given: "getNoData (noParameters(''nodata'' := Inr (Float32 0))) = Inr 0"
    by (rule getNoData_resolution [THEN conjunct2, THEN conjunct1, rule_format]) simp
  have bad: "getNoData (noParameters(''nodata'' := Inr (Float64 0))) = Inl (InvalidNoData (Float64 0))
     \<and> ternaryIfStage (Boolean True) (Float32 0) (noParameters(''nodata'' := Inr (Float64 0)))
          = Inl (InvalidNoData (Float64 0))
     \<and> ternaryElseStage (Boolean True) (Float32 0) (noParameters(''nodata'' := Inr (Float64 0)))
          = Inl (InvalidNoData (Float64 0))"
    by (rule getNoData_resolution [THEN conjunct2, THEN conjunct2, THEN conjunct1, rule_format])
       simp_all
  from absent default given bad show ?thesis by blast
qed

text \<open>
  The claim as stated fails on the default: the smallest positive normal \<open>float32\<close> is
  the pattern \<open>0x00800000\<close>, of value \<open>2\<^sup>-\<^sup>1\<^sup>2\<^sup>6\<close>; the default of \<open>getNoData\<close> is the
  pattern \<open>0x00000001\<close>, of value \<open>2\<^sup>-\<^sup>1\<^sup>4\<^sup>9\<close>, which is not normal.
\<close>

theorem getNoData_default_counterexample:
  "getNoData noParameters = Inr 0x00000001
   \<and> getNoData noParameters \<noteq> Inr 0x00800000
   \<and> f32_valof 0x00000001 = 1 / 2 ^ 149
   \<and> f32_valof 0x00800000 = 1 / 2 ^ 126
   \<and> f32_isNormal 0x00800000
   \<and> \<not> f32_isNormal 0x00000001"
  using f32_valof_smallest_subnormal f32_valof_smallest_normal f32_isNormal_smallest_normal
    f32_isNormal_smallest_subnormal
  by (simp add: getNoData_noParameters)

subsection \<open>Addition of strings\<close>

text \<open>
  Claim C6. As soon as one operand is a string, \<open>addStage\<close> succeeds and returns the
  string made of the \<open>%v\<close> rendering of \<open>left\<close> followed by the \<open>%v\<close> rendering of
  \<open>right\<close> (a string operand renders as itself); it never reaches the numeric block,
  whose results are numbers or errors.
\<close>

theorem addition_concatenates_strings:
  assumes "isString left \<or> isString right"
  shows "addStage rt left right parameters = Inr (Str (Sprint_v rt left @ Sprint_v rt right))
       \<and> (\<forall>s. left = Str s \<longrightarrow>
             addStage rt left right parameters = Inr (Str (s @ Sprint_v rt right)))
       \<and> (\<forall>s. right = Str s \<longrightarrow>
             addStage rt left right parameters = Inr (Str (Sprint_v rt left @ s)))"
  using assms by (auto simp: addStage_def)

theorem addition_concatenates_strings_witness:
  "isString (Str ''foo'')
   \<and> addStage sampleRuntime (Str ''foo'') (Str ''bar'') noParameters = Inr (Str ''foobar'')
   \<and> addStage sampleRuntime (Boolean True) (Str ''foo'') noParameters = Inr (Str ''truefoo'')
   \<and> addStage sampleRuntime (Str ''foo'') NilValue noParameters = Inr (Str ''foo<nil>'')"
  using addition_concatenates_strings [of "Str ''foo''" "Str ''bar''" sampleRuntime noParameters]
        addition_concatenates_strings [of "Boolean True" "Str ''foo''" sampleRuntime noParameters]
        addition_concatenates_strings [of "Str ''foo''" NilValue sampleRuntime noParameters]
  by simp

subsection \<open>Regular expressions\<close>

lemma regexStage_result:
  "regexStage rt left right parameters = Inr v \<Longrightarrow> \<exists>b. v = Boolean b"
  by (auto simp: regexStage_def split: sum.splits prod.splits if_splits option.splits)

text \<open>
  Claim C7. Whenever \<open>regexStage\<close> succeeds with a bool \<open>b\<close>, \<open>notRegexStage\<close> on the
  same operands succeeds with \<open>not b\<close>; whenever \<open>regexStage\<close> fails, \<open>notRegexStage\<close>
  fails with the same error; and \<open>regexStage\<close> returns nothing but a bool. On a string
  \<open>s\<close>, \<open>regexStage\<close> succeeds with the match of \<open>s\<close> when the pattern is a compiled
  expression or a text that compiles, and fails with the compilation error when the
  text does not compile.
\<close>

theorem regex_round_trip:
  "(\<forall>b. regexStage rt left right parameters = Inr (Boolean b) \<longrightarrow>
        notRegexStage rt left right parameters = Inr (Boolean (\<not> b)))
   \<and> (\<forall>err. regexStage rt left right parameters = Inl err \<longrightarrow>
        notRegexStage rt left right parameters = Inl err)
   \<and> (\<forall>v. regexStage rt left right parameters = Inr v \<longrightarrow> (\<exists>b. v = Boolean b))
   \<and> (\<forall>re. regexStage rt (Str s) (RegexpPtr (Some re)) parameters
               = Inr (Boolean (regexp_Match rt re s)))
   \<and> (\<forall>p re. regexp_Compile rt p = Inr re \<longrightarrow>
         regexStage rt (Str s) (Str p) parameters = Inr (Boolean (regexp_Match rt re s)))
   \<and> (\<forall>p err. regexp_Compile rt p = Inl err \<longrightarrow>
         regexStage rt (Str s) (Str p) parameters = Inl (RegexpCompileError p err))"
proof (intro conjI allI impI)
  fix b assume "regexStage rt left right parameters = Inr (Boolean b)"
  then show "notRegexStage rt left right parameters = Inr (Boolean (\<not> b))"
    by (simp add: notRegexStage_def)
next
  fix err assume "regexStage rt left right parameters = Inl err"
  then show "notRegexStage rt left right parameters = Inl err"
    by (simp add: notRegexStage_def)
next
  fix v assume "regexStage rt left right parameters = Inr v"
  then show "\<exists>b. v = Boolean b" by (rule regexStage_result)
next
  fix re show "regexStage rt (Str s) (RegexpPtr (Some re)) parameters
                 = Inr (Boolean (regexp_Match rt re s))"
    by (simp add: regexStage_def regexPattern_def)
next
  fix p re assume "regexp_Compile rt p = Inr re"
  then show "regexStage rt (Str s) (Str p) parameters = Inr (Boolean (regexp_Match rt re s))"
    by (simp add: regexStage_def regexPattern_def)
next
  fix p err assume "regexp_Compile rt p = Inl err"
  then show "regexStage rt (Str s) (Str p) parameters = Inl (RegexpCompileError p err)"
    by (simp add: regexStage_def regexPattern_def)
qed

lemma sample_compile_foo: "regexp_Compile sampleRuntime ''foo'' = Inr (Regexp ''foo'')"
  by (simp add: sampleRuntime_def isLiteralText_def)

lemma sample_compile_star: "regexp_Compile sampleRuntime ''*'' = Inl ''error parsing regexp''"
  by (simp add: sampleRuntime_def isLiteralText_def)

lemma sample_match_foo: "regexp_Match sampleRuntime (Regexp ''foo'') ''a foo'' = True"
  by (simp add: sampleRuntime_def containsText_def upt_rec)

lemma sample_match_bar: "regexp_Match sampleRuntime (Regexp ''bar'') ''a foo'' = False"
  by (simp add: sampleRuntime_def containsText_def upt_rec)

theorem regex_round_trip_witness:
  "regexStage sampleRuntime (Str ''a foo'') (Str ''foo'') noParameters = Inr (Boolean True)
   \<and> notRegexStage sampleRuntime (Str ''a foo'') (Str ''foo'') noParameters = Inr (Boolean False)
   \<and> regexStage sampleRuntime (Str ''a foo'') (Str ''*'') noParameters
       = Inl (RegexpCompileError ''*'' ''error parsing regexp'')
   \<and> notRegexStage sampleRuntime (Str ''a foo'') (Str ''*'') noParameters
       = Inl (RegexpCompileError ''*'' ''error parsing regexp'')
   \<and> regexStage sampleRuntime (Str ''a foo'') (RegexpPtr (Some (Regexp ''bar''))) noParameters
       = Inr (Boolean False)
   \<and> notRegexStage sampleRuntime (Str ''a foo'') (RegexpPtr (Some (Regexp ''bar''))) noParameters
       = Inr (Boolean True)"
proof -
  note rt1 = regex_round_trip [of sampleRuntime "Str ''a foo''" "Str ''foo''" noParameters
      "''a foo''"]
  note rt2 = regex_round_trip [of sampleRuntime "Str ''a foo''" "Str ''*''" noParameters
      "''a foo''"]
  note rt3 = regex_round_trip [of sampleRuntime "Str ''a foo''"
      "RegexpPtr (Some (Regexp ''bar''))" noParameters "''a foo''"]
  have m1: "regexStage sampleRuntime (Str ''a foo'') (Str ''foo'') noParameters
      = Inr (Boolean True)"
    using rt1 sample_compile_foo sample_match_foo by simp
  have n1: "notRegexStage sampleRuntime (Str ''a foo'') (Str ''foo'') noParameters
      = Inr (Boolean False)"
    using rt1 m1 by simp
  have m2: "regexStage sampleRuntime (Str ''a foo'') (Str ''*'') noParameters
      = Inl (RegexpCompileError ''*'' ''error parsing regexp'')"
    using rt2 sample_compile_star by simp
  have n2: "notRegexStage sampleRuntime (Str ''a foo'') (Str ''*'') noParameters
      = Inl (RegexpCompileError ''*'' ''error parsing regexp'')"
    using rt2 m2 by simp
  have m3: "regexStage sampleRuntime (Str ''a foo'') (RegexpPtr (Some (Regexp ''bar'')))
      noParameters = Inr (Boolean False)"
    using rt3 sample_match_bar by simp
  have n3: "notRegexStage sampleRuntime (Str ''a foo'') (RegexpPtr (Some (Regexp ''bar'')))
      noParameters = Inr (Boolean True)"
    using rt3 m3 by simp
  from m1 n1 m2 n2 m3 n3 show ?thesis by simp
qed

subsection \<open>Canonicalization\<close>

lemma castToFloat32_idem: "castToFloat32 rt (castToFloat32 rt v) = castToFloat32 rt v"
  by (cases v) simp_all

text \<open>
  Claim C8. \<open>castToFloat32\<close> is idempotent on every value. A \<open>float32\<close> and a
  \<open>[]float32\<close> are returned as they are; an integer of any of the widths of the switch,
  an \<open>int\<close> and a \<open>float64\<close> become the \<open>float32\<close> conversion of their value. Hence
  wrapping a parameter source twice is wrapping it once, and a parameter reads the same
  through the wrapper whether it was stored raw or already canonical.
\<close>

theorem canonicalization_idempotent:
  "castToFloat32 rt (castToFloat32 rt v) = castToFloat32 rt v
   \<and> castToFloat32 rt (Float32 x) = Float32 x
   \<and> castToFloat32 rt (Float32s xs) = Float32s xs
   \<and> sanitizedParameters_Get rt (sanitizedParameters_Get rt orig) key
        = sanitizedParameters_Get rt orig key
   \<and> sanitizedParameters_Get rt (orig(key := Inr v)) key
        = sanitizedParameters_Get rt (orig(key := Inr (castToFloat32 rt v))) key
   \<and> castToFloat32 rt (Uint8 u8) = Float32 (f32_of_int rt (uint u8))
   \<and> castToFloat32 rt (Uint16 u16) = Float32 (f32_of_int rt (uint u16))
   \<and> castToFloat32 rt (Uint32 u32) = Float32 (f32_of_int rt (uint u32))
   \<and> castToFloat32 rt (Uint64 u64) = Float32 (f32_of_int rt (uint u64))
   \<and> castToFloat32 rt (Int8 u8) = Float32 (f32_of_int rt (sint u8))
   \<and> castToFloat32 rt (Int16 u16) = Float32 (f32_of_int rt (sint u16))
   \<and> castToFloat32 rt (Int32 u32) = Float32 (f32_of_int rt (sint u32))
   \<and> castToFloat32 rt (Int64 u64) = Float32 (f32_of_int rt (sint u64))
   \<and> castToFloat32 rt (GoInt u64) = Float32 (f32_of_int rt (sint u64))
   \<and> castToFloat32 rt (Float64 d) = Float32 (f32_of_f64 rt d)"
  by (simp add: castToFloat32_idem sanitizedParameters_Get_def split: sum.splits)

subsection \<open>Swapping two stages\<close>

text \<open>
  Claim C9. For two stages \<open>a\<close> and \<open>b\<close> in the store (at the same address or not),
  \<open>a.swapWith(b)\<close> succeeds; afterwards \<open>a\<close> holds the symbol, operator, three type
  checks and error format that \<open>b\<close> had and still its own \<open>leftStage\<close> and
  \<open>rightStage\<close>, \<open>b\<close> holds the six fields that \<open>a\<close> had and still its own children,
  and every other stage of the store is as before.
\<close>

theorem swapWith_exchanges_non_child_fields:
  assumes ha: "h this = Some a" and hb: "h other = Some b"
  shows "\<exists>h' a' b'. swapWith h (Some this) (Some other) = Inr h'
           \<and> h' this = Some a' \<and> h' other = Some b'
           \<and> symbol a' = symbol b \<and> operator a' = operator b
           \<and> leftTypeCheck a' = leftTypeCheck b \<and> rightTypeCheck a' = rightTypeCheck b
           \<and> typeCheck a' = typeCheck b \<and> typeErrorFormat a' = typeErrorFormat b
           \<and> leftStage a' = leftStage a \<and> rightStage a' = rightStage a
           \<and> symbol b' = symbol a \<and> operator b' = operator a
           \<and> leftTypeCheck b' = leftTypeCheck a \<and> rightTypeCheck b' = rightTypeCheck a
           \<and> typeCheck b' = typeCheck a \<and> typeErrorFormat b' = typeErrorFormat a
           \<and> leftStage b' = leftStage b \<and> rightStage b' = rightStage b
           \<and> (\<forall>p. p \<noteq> this \<and> p \<noteq> other \<longrightarrow> h' p = h p)"
proof (cases "this = other")
  case True
  with ha hb have "a = b" by simp
  with True ha show ?thesis
    by (simp add: swapWith_def setToNonStage_def deref_def)
next
  case False
  with ha hb show ?thesis
    by (simp add: swapWith_def setToNonStage_def deref_def)
qed

lemma swapWith_sample:
  "swapWith sampleStore (Some 0) (Some 1) =
     Inr (sampleStore
           (1 \<mapsto> plusStage\<lparr>leftStage := Some 4, rightStage := Some 5\<rparr>,
            0 \<mapsto> andStageNode\<lparr>leftStage := Some 2, rightStage := Some 3\<rparr>))"
  by (simp add: swapWith_def setToNonStage_def deref_def sampleStore_def plusStage_def
      andStageNode_def)

theorem swapWith_exchanges_non_child_fields_witness:
  "sampleStore 0 = Some plusStage \<and> sampleStore 1 = Some andStageNode
   \<and> (\<exists>h' a' b'. swapWith sampleStore (Some 0) (Some 1) = Inr h'
         \<and> h' 0 = Some a' \<and> h' 1 = Some b'
         \<and> symbol a' = AND_SYM \<and> operator a' = Some andStage
         \<and> typeErrorFormat a' = logicalErrorFormat
         \<and> leftStage a' = Some 2 \<and> rightStage a' = Some 3
         \<and> symbol b' = PLUS \<and> typeCheck b' = Some additionTypeCheck
         \<and> typeErrorFormat b' = modifierErrorFormat
         \<and> leftStage b' = Some 4 \<and> rightStage b' = Some 5)"
proof -
  have stored: "sampleStore 0 = Some plusStage" "sampleStore 1 = Some andStageNode"
    by (simp_all add: sampleStore_def)
  from swapWith_exchanges_non_child_fields [OF stored]
  obtain h' a' b' where
    "swapWith sampleStore (Some 0) (Some 1) = Inr h'" "h' 0 = Some a'" "h' 1 = Some b'"
    "symbol a' = symbol andStageNode" "operator a' = operator andStageNode"
    "typeErrorFormat a' = typeErrorFormat andStageNode"
    "leftStage a' = leftStage plusStage" "rightStage a' = rightStage plusStage"
    "symbol b' = symbol plusStage" "typeCheck b' = typeCheck plusStage"
    "typeErrorFormat b' = typeErrorFormat plusStage"
    "leftStage b' = leftStage andStageNode" "rightStage b' = rightStage andStageNode"
    by blast
  then have "\<exists>h' a' b'. swapWith sampleStore (Some 0) (Some 1) = Inr h'
         \<and> h' 0 = Some a' \<and> h' 1 = Some b'
         \<and> symbol a' = AND_SYM \<and> operator a' = Some andStage
         \<and> typeErrorFormat a' = logicalErrorFormat
         \<and> leftStage a' = Some 2 \<and> rightStage a' = Some 3
         \<and> symbol b' = PLUS \<and> typeCheck b' = Some additionTypeCheck
         \<and> typeErrorFormat b' = modifierErrorFormat
         \<and> leftStage b' = Some 4 \<and> rightStage b' = Some 5"
    by (simp add: plusStage_def andStageNode_def)
  with stored show ?thesis by simp
qed

subsection \<open>The alternative after a nil left operand\<close>

text \<open>
  Claim C10. With the nil interface as \<open>left\<close> and a number or a number vector as
  \<open>right\<close>, \<open>ternaryElseStage\<close> compares the zero value \<open>0\<close> with the sentinel: when
  the sentinel equals 0 it returns \<open>right\<close> (the scalar, or the vector lane by lane);
  for every other sentinel it returns the error "invalid operand for ternary else".
\<close>

theorem ternaryElse_nil_left:
  assumes "getNoData parameters = Inr noData"
  shows "(f32_eq 0 noData \<longrightarrow>
            ternaryElseStage NilValue (Float32 rx) parameters = Inr (Float32 rx)
            \<and> ternaryElseStage NilValue (Float32s rax) parameters = Inr (Float32s rax))
       \<and> (\<not> f32_eq 0 noData \<longrightarrow>
            ternaryElseStage NilValue (Float32 rx) parameters
              = Inl (InvalidOperand ''ternary else'')
            \<and> ternaryElseStage NilValue (Float32s rax) parameters
              = Inl (InvalidOperand ''ternary else''))"
  using assms by (simp add: ternaryElseStage_def map_nth)

theorem ternaryElse_nil_left_witness:
  "getNoData noParameters = Inr 0x00000001
   \<and> \<not> f32_eq 0 0x00000001
   \<and> ternaryElseStage NilValue (Float32 0x40000000) noParameters
       = Inl (InvalidOperand ''ternary else'')
   \<and> ternaryElseStage NilValue (Float32s [0x40000000, 0x40400000]) noParameters
       = Inl (InvalidOperand ''ternary else'')
   \<and> getNoData (noParameters(''nodata'' := Inr (Float32 0))) = Inr 0
   \<and> f32_eq 0 0
   \<and> ternaryElseStage NilValue (Float32 0x40000000) (noParameters(''nodata'' := Inr (Float32 0)))
       = Inr (Float32 0x40000000)
   \<and> ternaryElseStage NilValue (Float32s [0x40000000, 0x40400000])
         (noParameters(''nodata'' := Inr (Float32 0)))
       = Inr (Float32s [0x40000000, 0x40400000])"
  using ternaryElse_nil_left [OF getNoData_noParameters, of "0x40000000" "[0x40000000, 0x40400000]"]
    ternaryElse_nil_left [OF getNoData_given, of 0 "0x40000000" "[0x40000000, 0x40400000]"]
    getNoData_noParameters getNoData_given [of 0] f32_eq_zero_smallest f32_eq_zero_zero
  by simp

end
